theory Spec2Isabelle
  imports Complex_Main "HOL-Library.AList"
begin

section \<open>Python primitives used by the services\<close>

text \<open>
  Text is modelled as a list of ASCII characters.  The helpers below are the
  string operations of Python that the services call; names follow Python.
\<close>

definition newline :: char where
  "newline = CHR 0x0A"

text \<open>\<^verbatim>\<open>str.isspace\<close> on one ASCII character: tab, LF, VT, FF, CR, the four
  separators 0x1C..0x1F and the blank.\<close>

definition is_space :: "char \<Rightarrow> bool" where
  "is_space c = (c \<in> set [CHR 0x09, CHR 0x0A, CHR 0x0B, CHR 0x0C, CHR 0x0D,
                              CHR 0x1C, CHR 0x1D, CHR 0x1E, CHR 0x1F, CHR 0x20])"

definition lstrip :: "string \<Rightarrow> string" where
  "lstrip s = dropWhile is_space s"

definition rstrip :: "string \<Rightarrow> string" where
  "rstrip s = rev (dropWhile is_space (rev s))"

definition strip :: "string \<Rightarrow> string" where
  "strip s = rstrip (lstrip s)"

definition is_digit :: "char \<Rightarrow> bool" where
  "is_digit c = (c \<in> set ''0123456789'')"

definition digit_val :: "char \<Rightarrow> nat" where
  "digit_val c = length (takeWhile (\<lambda>d. d \<noteq> c) ''0123456789'')"

definition digit_char :: "nat \<Rightarrow> char" where
  "digit_char n = ''0123456789'' ! (n mod 10)"

text \<open>\<^verbatim>\<open>str(n)\<close> for an integer.\<close>

fun str_nat :: "nat \<Rightarrow> string" where
  "str_nat n = (if n < 10 then [digit_char n] else str_nat (n div 10) @ [digit_char n])"

declare str_nat.simps [simp del]

definition str_int :: "int \<Rightarrow> string" where
  "str_int i = (if i < 0 then CHR ''-'' # str_nat (nat (- i)) else str_nat (nat i))"

text \<open>\<^verbatim>\<open>int(s)\<close> for a string: surrounding whitespace is dropped, one optional
  sign, then decimal digits in which single underscores may separate digits.
  \<open>None\<close> stands for the \<^verbatim>\<open>ValueError\<close>.\<close>

fun digits_ok :: "bool \<Rightarrow> string \<Rightarrow> bool" where
  "digits_ok prev_digit [] = prev_digit"
| "digits_ok prev_digit (c # cs) =
     (if is_digit c then digits_ok True cs
      else if c = CHR ''_'' \<and> prev_digit then digits_ok False cs
      else False)"

definition digits_value :: "string \<Rightarrow> nat" where
  "digits_value s = foldl (\<lambda>acc c. 10 * acc + digit_val c) 0 (filter is_digit s)"

definition parse_digits :: "string \<Rightarrow> int option" where
  "parse_digits s = (if digits_ok False s then Some (int (digits_value s)) else None)"

definition py_int :: "string \<Rightarrow> int option" where
  "py_int s =
     (case strip s of
        [] \<Rightarrow> None
      | c # cs \<Rightarrow>
          if c = CHR ''-'' then map_option uminus (parse_digits cs)
          else if c = CHR ''+'' then parse_digits cs
          else parse_digits (c # cs))"

text \<open>\<^verbatim>\<open>str.lower\<close>, \<^verbatim>\<open>str.startswith\<close>, \<^verbatim>\<open>str.endswith\<close>, \<^verbatim>\<open>sep.join\<close>,
  \<^verbatim>\<open>str.split(sep)\<close> for a one-character separator, \<^verbatim>\<open>str.replace\<close> for a
  non-empty pattern, and \<^verbatim>\<open>os.path.join\<close> for two POSIX components.\<close>

definition lower_char :: "char \<Rightarrow> char" where
  "lower_char c =
     (case map_of (zip ''ABCDEFGHIJKLMNOPQRSTUVWXYZ'' ''abcdefghijklmnopqrstuvwxyz'') c of
        None \<Rightarrow> c | Some d \<Rightarrow> d)"

definition lower :: "string \<Rightarrow> string" where
  "lower s = map lower_char s"

definition startswith :: "string \<Rightarrow> string \<Rightarrow> bool" where
  "startswith s p = (take (length p) s = p)"

definition endswith :: "string \<Rightarrow> string \<Rightarrow> bool" where
  "endswith s p = (length p \<le> length s \<and> drop (length s - length p) s = p)"

fun join :: "string \<Rightarrow> string list \<Rightarrow> string" where
  "join sep [] = []"
| "join sep [x] = x"
| "join sep (x # y # ys) = x @ sep @ join sep (y # ys)"

fun split_char :: "char \<Rightarrow> string \<Rightarrow> string list" where
  "split_char sep [] = [[]]"
| "split_char sep (c # cs) =
     (if c = sep then [] # split_char sep cs
      else (case split_char sep cs of
              [] \<Rightarrow> [[c]]
            | w # ws \<Rightarrow> (c # w) # ws))"

function replace :: "string \<Rightarrow> string \<Rightarrow> string \<Rightarrow> string" where
  "replace old new [] = []"
| "replace old new (c # cs) =
     (if old \<noteq> [] \<and> take (length old) (c # cs) = old
      then new @ replace old new (drop (length old) (c # cs))
      else c # replace old new cs)"
  by pat_completeness auto
termination
  by (relation "measure (\<lambda>(old, new, s). length s)") auto

definition os_path_join :: "string \<Rightarrow> string \<Rightarrow> string" where
  "os_path_join a b =
     (if startswith b ''/'' then b
      else if a = [] \<or> last a = CHR ''/'' then a @ b
      else a @ ''/'' @ b)"

section \<open>Exceptions, dictionaries and the environment\<close>

text \<open>An exception is its class and its message (\<^verbatim>\<open>str(e)\<close>).  \<open>ImportError\<close>
  stands for the class and its subclasses, \<open>OtherError\<close> for every class the code
  does not tell apart.\<close>

datatype exc_class = ImportError | ValueError | KeyError | AttributeError | OtherError

datatype py_exception = PyExc exc_class string

fun exc_class_of :: "py_exception \<Rightarrow> exc_class" where
  "exc_class_of (PyExc c m) = c"

fun exc_message :: "py_exception \<Rightarrow> string" where
  "exc_message (PyExc c m) = m"

definition key_error :: "string \<Rightarrow> py_exception" where
  "key_error k = PyExc KeyError ([CHR 0x27] @ k @ [CHR 0x27])"

definition none_attribute_error :: "string \<Rightarrow> py_exception" where
  "none_attribute_error a =
     PyExc AttributeError
       ([CHR 0x27] @ ''NoneType'' @ [CHR 0x27] @ '' object has no attribute ''
          @ [CHR 0x27] @ a @ [CHR 0x27])"

text \<open>A key of a Python dictionary is absent, holds \<^verbatim>\<open>None\<close>, or holds a value.\<close>

datatype 'a entry = Missing | PyNone | Value 'a

text \<open>The document metadata dictionary, as the upload endpoint creates it and
  \<^verbatim>\<open>process_document\<close> extends it.\<close>

record document =
  doc_id :: string
  title :: "string entry"
  original_filename :: "string entry"
  file_path :: "string entry"
  file_type :: "string entry"
  tags :: "string list entry"
  status :: "string entry"
  page_count :: "int entry"
  processed_path :: "string entry"
  processed_time :: "string entry"
  text_length :: "int entry"
  error_message :: "string entry"

text \<open>\<^verbatim>\<open>app.config\<close>: the settings the modelled code reads.\<close>

record config =
  PROCESSED_DIR :: string
  OCR_ENGINE :: string
  OCR_LANGUAGE :: string
  MIN_THEME_DOCUMENTS :: int
  THEME_SIMILARITY_THRESHOLD :: real

text \<open>
  The external tools are opaque processes and libraries.  The environment gives
  the outcome of each call: a value, or the exception it raises.  A path
  argument is \<open>None\<close> when the code passes Python's \<^verbatim>\<open>None\<close>.  \<open>'i\<close> is the type
  of page images.  \<open>pdftotext\<close> covers the tool run and the read of its output
  file, \<open>docx2txt_tool\<close> likewise; \<open>paddle_ocr\<close> gives the recognised lines
  (\<^verbatim>\<open>result[0]\<close>); \<open>os_error\<close> is the exception of a failing file-system call
  on a path; \<open>now\<close> is \<^verbatim>\<open>datetime.now().isoformat()\<close>.  Writes of intermediate
  files (tool output, page images, the JSON metadata files) are not modelled.
\<close>

record 'i environment =
  pdftotext :: "string option \<Rightarrow> py_exception + string"
  pdfinfo :: "string option \<Rightarrow> py_exception + string"
  convert_from_path :: "string option \<Rightarrow> py_exception + 'i list"
  image_open :: "string option \<Rightarrow> py_exception + 'i"
  image_to_string :: "'i \<Rightarrow> string \<Rightarrow> py_exception + string"
  paddle_ocr :: "string \<Rightarrow> string option \<Rightarrow> py_exception + string list"
  docx2txt_process :: "string \<Rightarrow> py_exception + string"
  docx2txt_tool :: "string \<Rightarrow> py_exception + string"
  antiword :: "string \<Rightarrow> py_exception + string"
  libreoffice :: "string \<Rightarrow> string \<Rightarrow> py_exception option"
  read_text :: "string option \<Rightarrow> py_exception + string"
  os_error :: "string \<Rightarrow> py_exception"
  now :: string

text \<open>The file system: regular files with their content, and directories.\<close>

record filesystem =
  files :: "string \<rightharpoonup> string"
  dirs :: "string set"

definition os_path_exists :: "filesystem \<Rightarrow> string \<Rightarrow> bool" where
  "os_path_exists fs p = (p \<in> dom (files fs) \<or> p \<in> dirs fs)"

definition os_makedirs :: "filesystem \<Rightarrow> string \<Rightarrow> filesystem option" where
  "os_makedirs fs p =
     (if p \<in> dom (files fs) then None else Some (fs\<lparr>dirs := insert p (dirs fs)\<rparr>))"

definition write_file :: "filesystem \<Rightarrow> string \<Rightarrow> string \<Rightarrow> filesystem option" where
  "write_file fs p t =
     (if p \<in> dirs fs then None else Some (fs\<lparr>files := (files fs)(p \<mapsto> t)\<rparr>))"

definition os_remove :: "filesystem \<Rightarrow> string \<Rightarrow> filesystem option" where
  "os_remove fs p =
     (if p \<in> dom (files fs) then Some (fs\<lparr>files := (files fs)(p := None)\<rparr>) else None)"

definition below :: "string \<Rightarrow> string \<Rightarrow> bool" where
  "below d p = (p = d \<or> startswith p (if d \<noteq> [] \<and> last d = CHR ''/'' then d else d @ ''/''))"

definition shutil_rmtree :: "filesystem \<Rightarrow> string \<Rightarrow> filesystem option" where
  "shutil_rmtree fs d =
     (if d \<in> dirs fs
      then Some \<lparr>files = (\<lambda>p. if below d p then None else files fs p),
                 dirs = {p \<in> dirs fs. \<not> below d p}\<rparr>
      else None)"

section \<open>Document processor\<close>

text \<open>The state of a \<^verbatim>\<open>DocumentProcessor\<close>: the registry \<^verbatim>\<open>self.documents\<close>, a
  dictionary in insertion order, and the file system it works on.\<close>

record processor_state =
  documents :: "(string \<times> document) list"
  fs :: filesystem

text \<open>One page of OCR, shared by \<^verbatim>\<open>_process_pdf_with_ocr\<close> (on the saved page
  image) and \<^verbatim>\<open>_process_image\<close> (on the uploaded file).\<close>

definition paddle_text :: "string list \<Rightarrow> string" where
  "paddle_text lines = (if lines = [] then [] else join [newline] lines)"

definition ocr_engine_text ::
  "config \<Rightarrow> 'i environment \<Rightarrow> 'i \<Rightarrow> string option \<Rightarrow> py_exception + string" where
  "ocr_engine_text cfg env img image_path =
     (if OCR_ENGINE cfg = ''tesseract'' then image_to_string env img (OCR_LANGUAGE cfg)
      else if OCR_ENGINE cfg = ''paddleocr'' then
        (case paddle_ocr env (OCR_LANGUAGE cfg) image_path of
           Inl e \<Rightarrow> Inl e
         | Inr lines \<Rightarrow> Inr (paddle_text lines))
      else Inl (PyExc ValueError (''Unsupported OCR engine: '' @ OCR_ENGINE cfg)))"

definition page_marker :: "nat \<Rightarrow> string" where
  "page_marker n = ''--- Page '' @ str_nat n @ '' ---''"

text \<open>The loop of \<^verbatim>\<open>_process_pdf_with_ocr\<close> over \<^verbatim>\<open>enumerate(images)\<close>; \<open>i\<close> is
  the index of the first image of the list.\<close>

fun ocr_pages ::
  "config \<Rightarrow> 'i environment \<Rightarrow> string \<Rightarrow> nat \<Rightarrow> 'i list \<Rightarrow> py_exception + string list" where
  "ocr_pages cfg env images_dir i [] = Inr []"
| "ocr_pages cfg env images_dir i (img # rest) =
     (case ocr_engine_text cfg env img
             (Some (os_path_join images_dir (''page_'' @ str_nat (i + 1) @ ''.png''))) of
        Inl e \<Rightarrow> Inl e
      | Inr page_text \<Rightarrow>
          (case ocr_pages cfg env images_dir (i + 1) rest of
             Inl e \<Rightarrow> Inl e
           | Inr all_text \<Rightarrow>
               Inr ((page_marker (i + 1) @ [newline] @ page_text @ [newline]) # all_text)))"

definition process_pdf_with_ocr ::
  "config \<Rightarrow> 'i environment \<Rightarrow> string option \<Rightarrow> string \<Rightarrow> py_exception + string \<times> int" where
  "process_pdf_with_ocr cfg env path output_dir =
     (case convert_from_path env path of
        Inl e \<Rightarrow> Inl e
      | Inr images \<Rightarrow>
          (case ocr_pages cfg env (os_path_join output_dir ''page_images'') 0 images of
             Inl e \<Rightarrow> Inl e
           | Inr all_text \<Rightarrow> Inr (join [newline] all_text, int (length images))))"

text \<open>The loop of \<^verbatim>\<open>_process_pdf\<close> over the lines of the \<^verbatim>\<open>pdfinfo\<close> output;
  \<open>None\<close> is the exception of a page count that does not parse.\<close>

fun pdfinfo_page_count :: "string list \<Rightarrow> int option" where
  "pdfinfo_page_count [] = Some 0"
| "pdfinfo_page_count (line # rest) =
     (if startswith line ''Pages:''
      then (case split_char CHR '':'' line of
              _ # field # _ \<Rightarrow> py_int (strip field)
            | _ \<Rightarrow> None)
      else pdfinfo_page_count rest)"

definition process_pdf ::
  "config \<Rightarrow> 'i environment \<Rightarrow> string option \<Rightarrow> string \<Rightarrow> py_exception + string \<times> int" where
  "process_pdf cfg env path output_dir =
     (case pdftotext env path of
        Inl e \<Rightarrow> process_pdf_with_ocr cfg env path output_dir
      | Inr text \<Rightarrow>
          if length (strip text) < 100 then
            (case process_pdf_with_ocr cfg env path output_dir of
               Inl e \<Rightarrow> process_pdf_with_ocr cfg env path output_dir
             | Inr r \<Rightarrow> Inr r)
          else
            (case pdfinfo env path of
               Inl e \<Rightarrow> process_pdf_with_ocr cfg env path output_dir
             | Inr info_output \<Rightarrow>
                 (case pdfinfo_page_count (split_char newline info_output) of
                    None \<Rightarrow> process_pdf_with_ocr cfg env path output_dir
                  | Some pc \<Rightarrow> Inr (text, pc))))"

definition process_image ::
  "config \<Rightarrow> 'i environment \<Rightarrow> string option \<Rightarrow> string \<Rightarrow> py_exception + string \<times> int" where
  "process_image cfg env path output_dir =
     (case image_open env path of
        Inl e \<Rightarrow> Inl e
      | Inr img \<Rightarrow>
          (case ocr_engine_text cfg env img path of
             Inl e \<Rightarrow> Inl e
           | Inr text \<Rightarrow> Inr (text, 1)))"

definition estimated_pages :: "string \<Rightarrow> int" where
  "estimated_pages text = max 1 (int (length text) div 3000)"

definition word_text :: "'i environment \<Rightarrow> string option \<Rightarrow> py_exception + string" where
  "word_text env path =
     (case path of
        None \<Rightarrow> Inl (none_attribute_error ''endswith'')
      | Some p \<Rightarrow>
          if endswith p ''.docx'' then
            (case docx2txt_process env p of
               Inl e \<Rightarrow> if exc_class_of e = ImportError then docx2txt_tool env p else Inl e
             | Inr text \<Rightarrow> Inr text)
          else antiword env p)"

definition process_word ::
  "config \<Rightarrow> 'i environment \<Rightarrow> string option \<Rightarrow> string \<Rightarrow> py_exception + string \<times> int" where
  "process_word cfg env path output_dir =
     (case word_text env path of
        Inr text \<Rightarrow> Inr (text, estimated_pages text)
      | Inl e \<Rightarrow>
          (let failed = (\<lambda>e2. Inl (PyExc OtherError
                 (''Failed to process Word document: '' @ exc_message e
                    @ '' and conversion failed: '' @ exc_message e2)))
           in case path of
                None \<Rightarrow> failed (os_error env output_dir)
              | Some p \<Rightarrow>
                  (case libreoffice env output_dir p of
                     Some e2 \<Rightarrow> failed e2
                   | None \<Rightarrow>
                       (case process_pdf cfg env
                               (Some (os_path_join output_dir ''converted.pdf'')) output_dir of
                          Inl e2 \<Rightarrow> failed e2
                        | Inr r \<Rightarrow> Inr r))))"

definition process_text ::
  "config \<Rightarrow> 'i environment \<Rightarrow> string option \<Rightarrow> string \<Rightarrow> py_exception + string \<times> int" where
  "process_text cfg env path output_dir =
     (case read_text env path of
        Inl e \<Rightarrow> Inl e
      | Inr text \<Rightarrow> Inr (text, estimated_pages text))"

definition extract_text ::
  "config \<Rightarrow> 'i environment \<Rightarrow> string \<Rightarrow> string option \<Rightarrow> string \<Rightarrow> py_exception + string \<times> int" where
  "extract_text cfg env ftype path processed_dir =
     (if ftype = ''pdf'' then process_pdf cfg env path processed_dir
      else if ftype \<in> set [''png'', ''jpg'', ''jpeg'', ''tiff'', ''bmp'']
        then process_image cfg env path processed_dir
      else if ftype \<in> set [''doc'', ''docx''] then process_word cfg env path processed_dir
      else process_text cfg env path processed_dir)"

text \<open>The body of the \<^verbatim>\<open>try\<close> of \<^verbatim>\<open>process_document\<close>: the file system it leaves,
  and either the exception that ends it or the text and page count.\<close>

definition process_try ::
  "config \<Rightarrow> 'i environment \<Rightarrow> filesystem \<Rightarrow> string \<Rightarrow> string \<Rightarrow> string option
     \<Rightarrow> filesystem \<times> (py_exception + string \<times> int)" where
  "process_try cfg env fs0 did ftype path =
     (let processed_dir = os_path_join (PROCESSED_DIR cfg) did in
      case os_makedirs fs0 processed_dir of
        None \<Rightarrow> (fs0, Inl (os_error env processed_dir))
      | Some fs1 \<Rightarrow>
          (case extract_text cfg env ftype path processed_dir of
             Inl e \<Rightarrow> (fs1, Inl e)
           | Inr (text, pc) \<Rightarrow>
               (let text_file = os_path_join processed_dir ''extracted_text.txt'' in
                case write_file fs1 text_file text of
                  None \<Rightarrow> (fs1, Inl (os_error env text_file))
                | Some fs2 \<Rightarrow> (fs2, Inr (text, pc)))))"

text \<open>\<^verbatim>\<open>DocumentProcessor.process_document\<close>.  The result is the returned boolean,
  or the exception that leaves the method (the three dictionary reads stand
  before the \<^verbatim>\<open>try\<close>); with it the document dictionary, which the method
  changes in place, and the new state.\<close>

definition process_document ::
  "config \<Rightarrow> 'i environment \<Rightarrow> processor_state \<Rightarrow> document
     \<Rightarrow> (py_exception + bool) \<times> document \<times> processor_state" where
  "process_document cfg env st document =
     (case file_path document of
        Missing \<Rightarrow> (Inl (key_error ''file_path''), document, st)
      | fp \<Rightarrow>
          (case file_type document of
             Missing \<Rightarrow> (Inl (key_error ''file_type''), document, st)
           | PyNone \<Rightarrow> (Inl (none_attribute_error ''lower''), document, st)
           | Value ft \<Rightarrow>
               (let path = (case fp of Value p \<Rightarrow> Some p | _ \<Rightarrow> None) in
                case process_try cfg env (fs st) (doc_id document) (lower ft) path of
                  (fs', Inr (text, pc)) \<Rightarrow>
                    (let document' = document
                           \<lparr>status := Value ''processed'',
                            page_count := Value pc,
                            processed_path :=
                              Value (os_path_join (PROCESSED_DIR cfg) (doc_id document)),
                            processed_time := Value (now env),
                            text_length := Value (int (length text))\<rparr>
                     in (Inr True, document',
                         \<lparr>documents = AList.update (doc_id document) document' (documents st),
                          fs = fs'\<rparr>))
                | (fs', Inl e) \<Rightarrow>
                    (let document' = document
                           \<lparr>status := Value ''error'',
                            error_message := Value (exc_message e)\<rparr>
                     in (Inr False, document',
                         \<lparr>documents = AList.update (doc_id document) document' (documents st),
                          fs = fs'\<rparr>)))))"

text \<open>\<^verbatim>\<open>DocumentProcessor.get_document\<close>.\<close>

definition get_document :: "processor_state \<Rightarrow> string \<Rightarrow> document option" where
  "get_document st document_id = map_of (documents st) document_id"

text \<open>The two deletions of \<^verbatim>\<open>delete_document\<close>: \<open>None\<close> is an exception, which
  the method answers with \<^verbatim>\<open>False\<close>.\<close>

definition delete_path ::
  "(filesystem \<Rightarrow> string \<Rightarrow> filesystem option) \<Rightarrow> filesystem \<Rightarrow> string entry
     \<Rightarrow> filesystem option" where
  "delete_path remove fs0 p =
     (case p of
        Missing \<Rightarrow> Some fs0
      | PyNone \<Rightarrow> None
      | Value q \<Rightarrow> if os_path_exists fs0 q then remove fs0 q else Some fs0)"

text \<open>\<^verbatim>\<open>DocumentProcessor.delete_document\<close>.  An exception after the uploaded file
  is removed leaves the file removed and the registry unchanged.\<close>

definition delete_document :: "processor_state \<Rightarrow> string \<Rightarrow> bool \<times> processor_state" where
  "delete_document st document_id =
     (case map_of (documents st) document_id of
        None \<Rightarrow> (False, st)
      | Some document \<Rightarrow>
          (case delete_path os_remove (fs st) (file_path document) of
             None \<Rightarrow> (False, st)
           | Some fs1 \<Rightarrow>
               (case delete_path shutil_rmtree fs1 (processed_path document) of
                  None \<Rightarrow> (False, st\<lparr>fs := fs1\<rparr>)
                | Some fs2 \<Rightarrow>
                    (True, \<lparr>documents = AList.delete document_id (documents st),
                            fs = fs2\<rparr>))))"

section \<open>Vector database service\<close>

text \<open>\<^verbatim>\<open>dict.get(key, default)\<close>, and \<^verbatim>\<open>str\<close> of a page entry inside an f-string.\<close>

definition get_default :: "'a entry \<Rightarrow> 'a \<Rightarrow> 'a entry" where
  "get_default e d = (case e of Missing \<Rightarrow> Value d | _ \<Rightarrow> e)"

definition str_page :: "int entry \<Rightarrow> string" where
  "str_page e = (case e of Value n \<Rightarrow> str_int n | _ \<Rightarrow> ''None'')"

text \<open>The metadata dictionary of a chunk, a chunk document of the index library
  (\<^verbatim>\<open>LangchainDocument\<close>), and a chunk as the index stores it, with its embedding.
  Field names carry a prefix where the same key occurs in several dictionaries.\<close>

record metadata =
  md_chunk_id :: "string entry"
  md_document_id :: "string entry"
  md_document_title :: "string entry"
  md_page :: "int entry"
  md_chunk_index :: "int entry"
  md_source :: "string entry"
  md_file_type :: "string entry"

record lc_document =
  page_content :: string
  metadata :: metadata

record stored =
  sc_document :: lc_document
  sc_embedding :: "real list"

text \<open>
  Python floats.  A float is not-a-number, an infinity, or a finite number;
  the result of an arithmetic operation on finite numbers is the exact result
  rounded by the rounding function of the platform, which is a parameter.
  \<open>float_less\<close> and \<open>float_le\<close> are \<^verbatim>\<open><\<close> and \<^verbatim>\<open><=\<close>, false whenever an operand is
  not a number.  \<^verbatim>\<open>min(a, b)\<close> answers \<^verbatim>\<open>b\<close> when \<^verbatim>\<open>b < a\<close> and \<^verbatim>\<open>a\<close> otherwise.
  The difference is needed for a minuend of 1 and a subtrahend of at most 1
  only, where a finite exact result is far from the overflow threshold.
\<close>

datatype pyfloat = NaN | NegInf | Fin real | PosInf

fun float_less :: "pyfloat \<Rightarrow> pyfloat \<Rightarrow> bool" where
  "float_less NaN b = False"
| "float_less a NaN = False"
| "float_less NegInf NegInf = False"
| "float_less NegInf b = True"
| "float_less PosInf b = False"
| "float_less (Fin x) NegInf = False"
| "float_less (Fin x) (Fin y) = (x < y)"
| "float_less (Fin x) PosInf = True"

fun float_le :: "pyfloat \<Rightarrow> pyfloat \<Rightarrow> bool" where
  "float_le NaN b = False"
| "float_le a NaN = False"
| "float_le NegInf b = True"
| "float_le PosInf PosInf = True"
| "float_le PosInf b = False"
| "float_le (Fin x) NegInf = False"
| "float_le (Fin x) (Fin y) = (x \<le> y)"
| "float_le (Fin x) PosInf = True"

definition py_min :: "pyfloat \<Rightarrow> pyfloat \<Rightarrow> pyfloat" where
  "py_min a b = (if float_less b a then b else a)"

fun float_sub :: "(real \<Rightarrow> real) \<Rightarrow> pyfloat \<Rightarrow> pyfloat \<Rightarrow> pyfloat" where
  "float_sub rnd NaN b = NaN"
| "float_sub rnd a NaN = NaN"
| "float_sub rnd PosInf PosInf = NaN"
| "float_sub rnd NegInf NegInf = NaN"
| "float_sub rnd PosInf b = PosInf"
| "float_sub rnd NegInf b = NegInf"
| "float_sub rnd (Fin x) PosInf = NegInf"
| "float_sub rnd (Fin x) NegInf = PosInf"
| "float_sub rnd (Fin x) (Fin y) = Fin (rnd (x - y))"

text \<open>What the index library answers to \<^verbatim>\<open>get\<close>: the lists under the keys
  \<^verbatim>\<open>documents\<close>, \<^verbatim>\<open>metadatas\<close> and \<^verbatim>\<open>embeddings\<close> (an empty list also for a key that
  holds \<^verbatim>\<open>None\<close>).\<close>

record get_result =
  gr_documents :: "string list"
  gr_metadatas :: "metadata list"
  gr_embeddings :: "real list list"

text \<open>
  The external collaborators of retrieval and clustering, all parameters of the
  model: the text splitter; the embedding model; the operations of the index
  library on its collection, each of which may raise: \<^verbatim>\<open>add_documents\<close> and
  \<^verbatim>\<open>delete(filter={"chunk_id": c})\<close> (they answer with the exception, if any, and
  the collection they leave), \<^verbatim>\<open>persist\<close>, \<^verbatim>\<open>get(filter={"chunk_id": c})\<close> (it
  answers with a result, \<open>None\<close> standing for an empty one) and the similarity
  search (collection, query, \<open>k\<close>, filter on document ids; it answers with
  ranked chunks and their distances); the clustering library (\<open>eps\<close>,
  \<open>min_samples\<close>, the embeddings; it answers with one label per embedding, \<open>-1\<close>
  for noise, or raises); the keyword extraction of the theme description; the
  generator of theme identifiers; and the rounding of floating-point results.
  Nothing is assumed about what the library does with a filter.
\<close>

record index_environment =
  split_text :: "string \<Rightarrow> string list"
  embed :: "string \<Rightarrow> real list"
  db_add_documents :: "stored list \<Rightarrow> lc_document list \<Rightarrow> py_exception option \<times> stored list"
  db_delete :: "stored list \<Rightarrow> string \<Rightarrow> py_exception option \<times> stored list"
  db_persist :: "stored list \<Rightarrow> py_exception option"
  db_get :: "stored list \<Rightarrow> string \<Rightarrow> py_exception + get_result option"
  similarity_search_with_score ::
    "stored list \<Rightarrow> string \<Rightarrow> int \<Rightarrow> string list option
       \<Rightarrow> py_exception + (lc_document \<times> pyfloat) list"
  cluster_labels :: "real \<Rightarrow> int \<Rightarrow> real list list \<Rightarrow> py_exception + int list"
  common_words :: "string \<Rightarrow> string list option"
  uuid4 :: "int \<Rightarrow> string"
  float_round :: "real \<Rightarrow> real"

text \<open>The state of a \<^verbatim>\<open>VectorDatabaseService\<close>: the index and \<^verbatim>\<open>self.chunk_metadata\<close>.\<close>

record vector_state =
  vector_db :: "stored list"
  chunk_metadata :: "(string \<times> string list) list"

text \<open>The page of a chunk in \<^verbatim>\<open>add_document\<close>.  The loop over the lines of the
  chunk stops at the first line that starts with the marker prefix and whose
  rest parses as an integer.\<close>

fun find_page_info :: "string list \<Rightarrow> int option" where
  "find_page_info [] = None"
| "find_page_info (line # rest) =
     (if startswith line ''--- Page ''
      then (case py_int (replace '' ---'' [] (replace ''--- Page '' [] line)) of
              Some n \<Rightarrow> Some n
            | None \<Rightarrow> find_page_info rest)
      else find_page_info rest)"

definition truthy_int :: "int entry \<Rightarrow> bool" where
  "truthy_int e = (case e of Value n \<Rightarrow> n \<noteq> 0 | _ \<Rightarrow> False)"

definition chunk_page_info :: "document \<Rightarrow> nat \<Rightarrow> nat \<Rightarrow> string \<Rightarrow> int option" where
  "chunk_page_info document i n_chunks chunk_text =
     (case find_page_info (split_char newline chunk_text) of
        Some n \<Rightarrow> Some n
      | None \<Rightarrow>
          (case page_count document of
             Value pc \<Rightarrow>
               if pc \<noteq> 0 then Some (min (1 + (int i * pc) div int n_chunks) pc) else None
           | _ \<Rightarrow> None))"

text \<open>\<^verbatim>\<open>page_info or 1\<close>.\<close>

definition chunk_page :: "document \<Rightarrow> nat \<Rightarrow> nat \<Rightarrow> string \<Rightarrow> int" where
  "chunk_page document i n_chunks chunk_text =
     (case chunk_page_info document i n_chunks chunk_text of
        None \<Rightarrow> 1
      | Some n \<Rightarrow> if n = 0 then 1 else n)"

definition chunk_id_of :: "string \<Rightarrow> nat \<Rightarrow> string" where
  "chunk_id_of did i = did @ ''_chunk_'' @ str_nat i"

definition langchain_doc :: "document \<Rightarrow> nat \<Rightarrow> nat \<Rightarrow> string \<Rightarrow> lc_document" where
  "langchain_doc document n_chunks i chunk_text =
     \<lparr>page_content = chunk_text,
      metadata =
        \<lparr>md_chunk_id = Value (chunk_id_of (doc_id document) i),
         md_document_id = Value (doc_id document),
         md_document_title = get_default (title document) [],
         md_page = Value (chunk_page document i n_chunks chunk_text),
         md_chunk_index = Value (int i),
         md_source = get_default (original_filename document) [],
         md_file_type = get_default (file_type document) []\<rparr>\<rparr>"

definition langchain_docs :: "document \<Rightarrow> string list \<Rightarrow> lc_document list" where
  "langchain_docs document chunks =
     map (\<lambda>(i, chunk_text). langchain_doc document (length chunks) i chunk_text)
       (enumerate 0 chunks)"

text \<open>\<^verbatim>\<open>VectorDatabaseService.add_document\<close>.  Every exception inside the method
  is answered with \<^verbatim>\<open>False\<close>: a \<^verbatim>\<open>processed_path\<close> that holds \<^verbatim>\<open>None\<close>, a text file
  that is a directory, and an exception of the index library, which leaves
  \<^verbatim>\<open>self.chunk_metadata\<close> as it was.\<close>

definition vdb_add_document ::
  "index_environment \<Rightarrow> filesystem \<Rightarrow> vector_state \<Rightarrow> document \<Rightarrow> bool \<times> vector_state" where
  "vdb_add_document ienv fs0 vs document =
     (if status document \<noteq> Value ''processed'' \<or> processed_path document = Missing
      then (False, vs)
      else
        (case processed_path document of
           Value dir \<Rightarrow>
             (let text_file = os_path_join dir ''extracted_text.txt'' in
              if \<not> os_path_exists fs0 text_file then (False, vs)
              else
                (case files fs0 text_file of
                   None \<Rightarrow> (False, vs)
                 | Some text \<Rightarrow>
                     (let chunks = split_text ienv text;
                          docs = langchain_docs document chunks;
                          chunk_ids = map (chunk_id_of (doc_id document)) [0..<length chunks]
                      in case db_add_documents ienv (vector_db vs) docs of
                           (Some e, store) \<Rightarrow> (False, vs\<lparr>vector_db := store\<rparr>)
                         | (None, store) \<Rightarrow>
                             (case db_persist ienv store of
                                Some e \<Rightarrow> (False, vs\<lparr>vector_db := store\<rparr>)
                              | None \<Rightarrow>
                                  (True,
                                   \<lparr>vector_db = store,
                                    chunk_metadata =
                                      AList.update (doc_id document) chunk_ids
                                        (chunk_metadata vs)\<rparr>)))))
         | _ \<Rightarrow> (False, vs)))"

text \<open>A formatted search result, and \<^verbatim>\<open>VectorDatabaseService.search\<close>.  The
  relevance score is \<^verbatim>\<open>1.0 - min(score, 1.0)\<close> in floating point.\<close>

record search_result =
  sr_document_id :: "string entry"
  sr_document_title :: "string entry"
  sr_chunk_id :: "string entry"
  sr_extracted_answer :: string
  sr_citation :: string
  sr_relevance_score :: pyfloat
  sr_metadata :: metadata

definition relevance_of_distance :: "index_environment \<Rightarrow> pyfloat \<Rightarrow> pyfloat" where
  "relevance_of_distance ienv score = float_sub (float_round ienv) (Fin 1) (py_min score (Fin 1))"

definition format_result :: "index_environment \<Rightarrow> lc_document \<times> pyfloat \<Rightarrow> search_result" where
  "format_result ienv hit =
     (case hit of
        (doc, score) \<Rightarrow>
          \<lparr>sr_document_id = get_default (md_document_id (metadata doc)) [],
           sr_document_title = get_default (md_document_title (metadata doc)) [],
           sr_chunk_id = get_default (md_chunk_id (metadata doc)) [],
           sr_extracted_answer = page_content doc,
           sr_citation = ''Page '' @ str_page (get_default (md_page (metadata doc)) 1),
           sr_relevance_score = relevance_of_distance ienv score,
           sr_metadata = metadata doc\<rparr>)"

definition filter_dict :: "string list option \<Rightarrow> string list option" where
  "filter_dict document_ids =
     (case document_ids of
        None \<Rightarrow> None
      | Some ids \<Rightarrow> if ids = [] then None else Some ids)"

definition vdb_search ::
  "index_environment \<Rightarrow> vector_state \<Rightarrow> string \<Rightarrow> string list option \<Rightarrow> int
     \<Rightarrow> search_result list" where
  "vdb_search ienv vs query document_ids max_results =
     (case similarity_search_with_score ienv (vector_db vs) query max_results
             (filter_dict document_ids) of
        Inl e \<Rightarrow> []
      | Inr results \<Rightarrow> map (format_result ienv) results)"

text \<open>\<^verbatim>\<open>VectorDatabaseService.delete_document\<close>.  The loop over the recorded chunk
  ids stops at the first \<^verbatim>\<open>delete\<close> that raises; the method then answers \<^verbatim>\<open>False\<close>
  and keeps the record of the document.\<close>

fun delete_chunks ::
  "index_environment \<Rightarrow> stored list \<Rightarrow> string list \<Rightarrow> py_exception option \<times> stored list" where
  "delete_chunks ienv store [] = (None, store)"
| "delete_chunks ienv store (chunk_id # rest) =
     (case db_delete ienv store chunk_id of
        (Some e, store') \<Rightarrow> (Some e, store')
      | (None, store') \<Rightarrow> delete_chunks ienv store' rest)"

definition vdb_delete_document ::
  "index_environment \<Rightarrow> vector_state \<Rightarrow> string \<Rightarrow> bool \<times> vector_state" where
  "vdb_delete_document ienv vs document_id =
     (case map_of (chunk_metadata vs) document_id of
        None \<Rightarrow> (False, vs)
      | Some chunk_ids \<Rightarrow>
          if chunk_ids = [] then (False, vs)
          else
            (case delete_chunks ienv (vector_db vs) chunk_ids of
               (Some e, store) \<Rightarrow> (False, vs\<lparr>vector_db := store\<rparr>)
             | (None, store) \<Rightarrow>
                 (case db_persist ienv store of
                    Some e \<Rightarrow> (False, vs\<lparr>vector_db := store\<rparr>)
                  | None \<Rightarrow>
                      (True,
                       \<lparr>vector_db = store,
                        chunk_metadata = AList.delete document_id (chunk_metadata vs)\<rparr>))))"

text \<open>\<^verbatim>\<open>VectorDatabaseService.get_document_embeddings\<close>.  The pair of a chunk is
  kept when the result has documents and its first embedding is not empty; a
  \<^verbatim>\<open>get\<close> that raises ends the method with the empty list.\<close>

definition chunk_embedding ::
  "index_environment \<Rightarrow> stored list \<Rightarrow> string \<Rightarrow> py_exception + (string \<times> real list) list" where
  "chunk_embedding ienv store chunk_id =
     (case db_get ienv store chunk_id of
        Inl e \<Rightarrow> Inl e
      | Inr None \<Rightarrow> Inr []
      | Inr (Some results) \<Rightarrow>
          if gr_documents results \<noteq> [] then
            (case gr_embeddings results of
               [] \<Rightarrow> Inr []
             | embedding # _ \<Rightarrow> if embedding \<noteq> [] then Inr [(chunk_id, embedding)] else Inr [])
          else Inr [])"

fun chunk_embeddings ::
  "index_environment \<Rightarrow> stored list \<Rightarrow> string list \<Rightarrow> (string \<times> real list) list option" where
  "chunk_embeddings ienv store [] = Some []"
| "chunk_embeddings ienv store (chunk_id # rest) =
     (case chunk_embedding ienv store chunk_id of
        Inl e \<Rightarrow> None
      | Inr found \<Rightarrow> map_option (\<lambda>embeddings. found @ embeddings)
                       (chunk_embeddings ienv store rest))"

definition get_document_embeddings ::
  "index_environment \<Rightarrow> vector_state \<Rightarrow> string \<Rightarrow> (string \<times> real list) list" where
  "get_document_embeddings ienv vs document_id =
     (case map_of (chunk_metadata vs) document_id of
        None \<Rightarrow> []
      | Some chunk_ids \<Rightarrow>
          (case chunk_embeddings ienv (vector_db vs) chunk_ids of
             None \<Rightarrow> []
           | Some embeddings \<Rightarrow> embeddings))"

section \<open>The public delete operation\<close>

text \<open>The application holds the document processor of the documents endpoint
  and the vector database service of the query and theme processors.  The
  endpoint \<^verbatim>\<open>DELETE /documents/{document_id}\<close> answers with a message or with
  the HTTP error 404.\<close>

record system =
  processor :: processor_state
  vector :: vector_state

definition api_delete_document ::
  "system \<Rightarrow> string \<Rightarrow> (nat \<times> string + string) \<times> system" where
  "api_delete_document sys document_id =
     (case delete_document (processor sys) document_id of
        (success, p) \<Rightarrow>
          if \<not> success then (Inl (404, ''Document not found''), sys\<lparr>processor := p\<rparr>)
          else (Inr ''Document deleted successfully'', sys\<lparr>processor := p\<rparr>))"

section \<open>Theme clustering\<close>

text \<open>\<^verbatim>\<open>ThemeCitation\<close> and \<^verbatim>\<open>Theme\<close>; the query processor builds dictionaries
  with the same keys.\<close>

record theme_citation =
  tc_document_id :: string
  tc_document_title :: string
  tc_citation :: string
  tc_relevance_score :: pyfloat

record theme =
  theme_id :: string
  theme_name :: string
  theme_description :: string
  document_count :: int
  citations :: "theme_citation list"

text \<open>The outcome of the loop body for one cluster: an exception (both methods
  answer it with an empty result), no theme, or a theme.\<close>

datatype 'a outcome = Raised | Skipped | Built 'a

definition themes_of :: "theme outcome list \<Rightarrow> theme list option" where
  "themes_of outcomes =
     (if Raised \<in> set outcomes then None
      else Some (concat (map (\<lambda>out. case out of Built t \<Rightarrow> [t] | _ \<Rightarrow> []) outcomes)))"

text \<open>Grouping the indices by cluster label, noise left out; the dictionary keeps
  the labels in the order of their first occurrence.\<close>

definition add_to_cluster :: "(int \<times> nat list) list \<Rightarrow> nat \<times> int \<Rightarrow> (int \<times> nat list) list" where
  "add_to_cluster clusters p =
     (case p of
        (i, label) \<Rightarrow>
          if label \<noteq> - 1 then
            (case map_of clusters label of
               None \<Rightarrow> clusters @ [(label, [i])]
             | Some indices \<Rightarrow> AList.update label (indices @ [i]) clusters)
          else clusters)"

definition group_clusters :: "int list \<Rightarrow> (int \<times> nat list) list" where
  "group_clusters labels = foldl add_to_cluster [] (enumerate 0 labels)"

definition theme_name_of :: "int \<Rightarrow> string" where
  "theme_name_of cluster_id = ''Theme '' @ str_int (cluster_id + 1)"

definition theme_description_of :: "string list \<Rightarrow> string" where
  "theme_description_of words = ''Common topics: '' @ join '', '' words"

subsection \<open>Theme processor\<close>

text \<open>\<^verbatim>\<open>DocumentProcessor.list_documents\<close> as the theme processor calls it, with
  the default arguments: no filter, the first 100 documents.\<close>

definition list_documents :: "processor_state \<Rightarrow> document list" where
  "list_documents st = take 100 (map snd (documents st))"

definition collect_document_chunks ::
  "index_environment \<Rightarrow> vector_state \<Rightarrow> string list
     \<Rightarrow> (string \<times> (string \<times> real list) list) list" where
  "collect_document_chunks ienv vs ids =
     foldl (\<lambda>document_chunks d.
              let embeddings = get_document_embeddings ienv vs d
              in if embeddings \<noteq> [] then AList.update d embeddings document_chunks
                 else document_chunks)
       [] ids"

definition chunk_map_of ::
  "(string \<times> (string \<times> real list) list) list \<Rightarrow> (string \<times> string) list" where
  "chunk_map_of document_chunks =
     concat (map (\<lambda>(d, chunks). map (\<lambda>(chunk_id, embedding). (d, chunk_id)) chunks)
               document_chunks)"

definition all_chunks_of ::
  "(string \<times> (string \<times> real list) list) list \<Rightarrow> real list list" where
  "all_chunks_of document_chunks =
     concat (map (\<lambda>(d, chunks). map snd chunks) document_chunks)"

text \<open>The citations of a cluster, over its members (document id and chunk id)
  in order.  A member whose document is not in the registry, or for whose
  chunk the index answers with no document, is passed over; a \<^verbatim>\<open>get\<close> that
  raises ends the run (\<open>None\<close> here), and so does a title that holds \<^verbatim>\<open>None\<close>,
  which fails the validation of \<^verbatim>\<open>ThemeCitation\<close>; a citation is kept only when
  no kept citation has the same document id and citation string.\<close>

fun collect_citations ::
  "index_environment \<Rightarrow> processor_state \<Rightarrow> stored list \<Rightarrow> (string \<times> string) list
     \<Rightarrow> theme_citation list \<Rightarrow> theme_citation list option" where
  "collect_citations ienv st store [] acc = Some acc"
| "collect_citations ienv st store ((d, chunk_id) # rest) acc =
     (case get_document st d of
        None \<Rightarrow> collect_citations ienv st store rest acc
      | Some doc_metadata \<Rightarrow>
          (case db_get ienv store chunk_id of
             Inl e \<Rightarrow> None
           | Inr None \<Rightarrow> collect_citations ienv st store rest acc
           | Inr (Some search_results) \<Rightarrow>
               if gr_documents search_results = []
               then collect_citations ienv st store rest acc
               else
                 (case get_default (title doc_metadata) ''Unknown'' of
                    Value t \<Rightarrow>
                      (let citation =
                             \<lparr>tc_document_id = d, tc_document_title = t,
                              tc_citation =
                                ''Page '' @ str_page
                                   (case gr_metadatas search_results of
                                      [] \<Rightarrow> Value 1
                                    | m # _ \<Rightarrow> get_default (md_page m) 1),
                              tc_relevance_score = Fin (float_round ienv (9 / 10))\<rparr>
                       in if \<exists>c \<in> set acc. tc_document_id c = tc_document_id citation
                                        \<and> tc_citation c = tc_citation citation
                          then collect_citations ienv st store rest acc
                          else collect_citations ienv st store rest (acc @ [citation]))
                  | _ \<Rightarrow> None)))"

fun cluster_chunk_texts ::
  "index_environment \<Rightarrow> stored list \<Rightarrow> (string \<times> string) list \<Rightarrow> string list option" where
  "cluster_chunk_texts ienv store [] = Some []"
| "cluster_chunk_texts ienv store ((d, chunk_id) # rest) =
     (case db_get ienv store chunk_id of
        Inl e \<Rightarrow> None
      | Inr None \<Rightarrow> cluster_chunk_texts ienv store rest
      | Inr (Some search_results) \<Rightarrow>
          (case gr_documents search_results of
             [] \<Rightarrow> cluster_chunk_texts ienv store rest
           | chunk_text # _ \<Rightarrow>
               map_option (\<lambda>chunk_texts. chunk_text # chunk_texts)
                 (cluster_chunk_texts ienv store rest)))"

text \<open>The loop body of \<^verbatim>\<open>ThemeProcessor.identify_themes\<close> for one cluster.  An
  index outside \<^verbatim>\<open>chunk_map\<close> is a \<^verbatim>\<open>KeyError\<close>.\<close>

definition theme_of_cluster ::
  "index_environment \<Rightarrow> processor_state \<Rightarrow> vector_state \<Rightarrow> (string \<times> string) list \<Rightarrow> int
     \<Rightarrow> int \<times> nat list \<Rightarrow> theme outcome" where
  "theme_of_cluster ienv st vs chunk_map min_documents cluster =
     (case cluster of
        (cluster_id, chunk_indices) \<Rightarrow>
          if \<exists>idx \<in> set chunk_indices. length chunk_map \<le> idx then Raised
          else
            (let members = map (\<lambda>idx. chunk_map ! idx) chunk_indices;
                 doc_ids = remdups (map fst members)
             in if min_documents \<le> int (length doc_ids) then
                  (case collect_citations ienv st (vector_db vs) members [] of
                     None \<Rightarrow> Raised
                   | Some cs \<Rightarrow>
                       (case cluster_chunk_texts ienv (vector_db vs) members of
                          None \<Rightarrow> Raised
                        | Some chunk_texts \<Rightarrow>
                            (case common_words ienv (join '' '' chunk_texts) of
                               None \<Rightarrow> Raised
                             | Some words \<Rightarrow>
                                 Built \<lparr>theme_id = uuid4 ienv cluster_id,
                                        theme_name = theme_name_of cluster_id,
                                        theme_description = theme_description_of words,
                                        document_count = int (length doc_ids),
                                        citations = cs\<rparr>)))
                else Skipped))"

text \<open>\<^verbatim>\<open>ThemeProcessor.identify_themes\<close>: the themes of the response.  The stored
  copy of the themes and the synthesized text are not modelled.\<close>

definition theme_identify_themes ::
  "index_environment \<Rightarrow> processor_state \<Rightarrow> vector_state \<Rightarrow> string list option \<Rightarrow> int \<Rightarrow> real
     \<Rightarrow> theme list" where
  "theme_identify_themes ienv st vs document_ids min_documents similarity_threshold =
     (let ids = (case document_ids of
                   Some l \<Rightarrow> if l \<noteq> [] then l else map doc_id (list_documents st)
                 | None \<Rightarrow> map doc_id (list_documents st));
          document_chunks = collect_document_chunks ienv vs ids
      in if int (length document_chunks) < min_documents then []
         else
           (case cluster_labels ienv (1 - similarity_threshold) min_documents
                   (all_chunks_of document_chunks) of
              Inl e \<Rightarrow> []
            | Inr labels \<Rightarrow>
                (case themes_of
                        (map (theme_of_cluster ienv st vs (chunk_map_of document_chunks)
                                min_documents)
                           (group_clusters labels)) of
                   None \<Rightarrow> []
                 | Some ts \<Rightarrow> ts)))"

subsection \<open>Query processor\<close>

text \<open>\<^verbatim>\<open>DocumentResult\<close> and \<^verbatim>\<open>QueryResponse\<close>.  A search result whose document id
  or title holds \<^verbatim>\<open>None\<close> fails the validation of \<^verbatim>\<open>DocumentResult\<close>.\<close>

record document_result =
  dr_document_id :: string
  dr_document_title :: string
  dr_extracted_answer :: string
  dr_citation :: string
  dr_relevance_score :: pyfloat

record query_response =
  qr_query :: string
  qr_results :: "document_result list"
  qr_themes :: "theme list option"

definition document_result_of :: "search_result \<Rightarrow> document_result option" where
  "document_result_of r =
     (case (sr_document_id r, sr_document_title r) of
        (Value d, Value t) \<Rightarrow>
          Some \<lparr>dr_document_id = d, dr_document_title = t,
                dr_extracted_answer = sr_extracted_answer r, dr_citation = sr_citation r,
                dr_relevance_score = sr_relevance_score r\<rparr>
      | _ \<Rightarrow> None)"

definition citation_of_result :: "document_result \<Rightarrow> theme_citation" where
  "citation_of_result r =
     \<lparr>tc_document_id = dr_document_id r, tc_document_title = dr_document_title r,
      tc_citation = dr_citation r, tc_relevance_score = dr_relevance_score r\<rparr>"

text \<open>The loop body of \<^verbatim>\<open>QueryProcessor.identify_themes\<close> for one cluster.  An
  index outside the result list is an \<^verbatim>\<open>IndexError\<close>.\<close>

definition query_theme_of_cluster ::
  "index_environment \<Rightarrow> document_result list \<Rightarrow> int \<times> nat list \<Rightarrow> theme outcome" where
  "query_theme_of_cluster ienv results cluster =
     (case cluster of
        (cluster_id, result_indices) \<Rightarrow>
          if \<exists>i \<in> set result_indices. length results \<le> i then Raised
          else
            (let cluster_results = map (\<lambda>i. results ! i) result_indices;
                 doc_ids = remdups (map dr_document_id cluster_results)
             in case common_words ienv
                       (join '' '' (map dr_extracted_answer cluster_results)) of
                  None \<Rightarrow> Raised
                | Some words \<Rightarrow>
                    Built \<lparr>theme_id = ''theme_'' @ str_int cluster_id,
                           theme_name = theme_name_of cluster_id,
                           theme_description = theme_description_of words,
                           document_count = int (length doc_ids),
                           citations = map citation_of_result cluster_results\<rparr>))"

definition error_response :: "string \<Rightarrow> query_response" where
  "error_response query =
     \<lparr>qr_query = query, qr_results = [], qr_themes = None\<rparr>"

text \<open>\<^verbatim>\<open>QueryProcessor.identify_themes\<close>.  The synthesized text of the response
  and the query history are not modelled.\<close>

definition query_identify_themes ::
  "config \<Rightarrow> index_environment \<Rightarrow> vector_state \<Rightarrow> string \<Rightarrow> string list option \<Rightarrow> int
     \<Rightarrow> query_response" where
  "query_identify_themes cfg ienv vs query document_ids max_results =
     (let search_results = vdb_search ienv vs query document_ids max_results in
      if None \<in> set (map document_result_of search_results) then error_response query
      else
        (let results = concat (map (\<lambda>r. case document_result_of r of
                                             None \<Rightarrow> [] | Some d \<Rightarrow> [d]) search_results)
         in if MIN_THEME_DOCUMENTS cfg \<le> int (length search_results) then
              (case cluster_labels ienv (1 - THEME_SIMILARITY_THRESHOLD cfg)
                      (MIN_THEME_DOCUMENTS cfg)
                      (map (\<lambda>r. embed ienv (sr_extracted_answer r)) search_results) of
                 Inl e \<Rightarrow> error_response query
               | Inr labels \<Rightarrow>
                   (case themes_of (map (query_theme_of_cluster ienv results)
                                      (group_clusters labels)) of
                      None \<Rightarrow> error_response query
                    | Some ts \<Rightarrow>
                        \<lparr>qr_query = query, qr_results = results, qr_themes = Some ts\<rparr>))
            else \<lparr>qr_query = query, qr_results = results, qr_themes = Some []\<rparr>))"

section \<open>Enhanced citation service\<close>

subsection \<open>Segmentation\<close>

text \<open>
  The three regular expressions of the service, written as scanners over ASCII
  text.  \<open>match_marker\<close> matches \<^verbatim>\<open>--- Page \d+ ---\<close> at the head of a string and
  gives the digits and the text after the match; the digits are the longest
  run, since a shorter run would be followed by a digit and not by the blank.
\<close>

definition match_marker :: "string \<Rightarrow> (string \<times> string) option" where
  "match_marker s =
     (if startswith s ''--- Page '' then
        (let r = drop 9 s; digits = takeWhile is_digit r; r2 = dropWhile is_digit r
         in if digits \<noteq> [] \<and> startswith r2 '' ---'' then Some (digits, drop 4 r2) else None)
      else None)"

lemma match_marker_shorter:
  "match_marker s = Some (digits, rest) \<Longrightarrow> length rest < length s"
proof -
  assume m: "match_marker s = Some (digits, rest)"
  then have st: "startswith s ''--- Page ''" and
    r: "rest = drop 4 (dropWhile is_digit (drop 9 s))"
    by (auto simp add: match_marker_def Let_def split: if_splits)
  from st have "9 \<le> length s"
    by (cases "9 \<le> length s") (auto simp add: startswith_def)
  moreover have "length (dropWhile is_digit (drop 9 s)) \<le> length (drop 9 s)"
    by (rule length_dropWhile_le)
  ultimately show ?thesis using r by simp
qed

text \<open>\<^verbatim>\<open>re.sub(r'--- Page \d+ ---', lambda m: f"\n{m.group(0)}\n", text)\<close>.\<close>

function wrap_page_markers :: "string \<Rightarrow> string" where
  "wrap_page_markers [] = []"
| "wrap_page_markers (c # cs) =
     (case match_marker (c # cs) of
        Some (digits, rest) \<Rightarrow>
          [newline] @ ''--- Page '' @ digits @ '' ---'' @ [newline] @ wrap_page_markers rest
      | None \<Rightarrow> c # wrap_page_markers cs)"
  by pat_completeness auto
termination
  by (relation "measure length") (auto dest: match_marker_shorter)

text \<open>\<^verbatim>\<open>re.split(r'\n\s*\n', text)\<close>.  At a newline, \<open>blank_line_match\<close> looks at
  the whitespace that follows: the match ends with the last newline of that
  whitespace, and there is none when the whitespace holds no newline.\<close>

definition blank_line_match :: "string \<Rightarrow> nat option" where
  "blank_line_match cs =
     (let ws = takeWhile is_space cs
      in if newline \<in> set ws
         then Some (length ws - length (takeWhile (\<lambda>x. x \<noteq> newline) (rev ws)))
         else None)"

function split_blank_lines :: "string \<Rightarrow> string list" where
  "split_blank_lines [] = [[]]"
| "split_blank_lines (c # cs) =
     (case (if c = newline then blank_line_match cs else None) of
        Some k \<Rightarrow> [] # split_blank_lines (drop k cs)
      | None \<Rightarrow>
          (case split_blank_lines cs of
             [] \<Rightarrow> [[c]]
           | w # ws \<Rightarrow> (c # w) # ws))"
  by pat_completeness auto
termination
  by (relation "measure length") auto

text \<open>\<^verbatim>\<open>_split_into_paragraphs\<close>.\<close>

definition split_into_paragraphs :: "string \<Rightarrow> string list" where
  "split_into_paragraphs text =
     map strip (filter (\<lambda>p. strip p \<noteq> []) (split_blank_lines (wrap_page_markers text)))"

text \<open>\<^verbatim>\<open>re.split(r'(?<=[.!?])\s+', paragraph)\<close>: a match is a whole run of
  whitespace that follows one of the three marks.  \<open>prev\<close> is the character
  before the head of the string.\<close>

function split_after_marks :: "char \<Rightarrow> string \<Rightarrow> string list" where
  "split_after_marks prev [] = [[]]"
| "split_after_marks prev (c # cs) =
     (if prev \<in> set ''.!?'' \<and> is_space c
      then [] # split_after_marks c (dropWhile is_space cs)
      else (case split_after_marks c cs of
              [] \<Rightarrow> [[c]]
            | w # ws \<Rightarrow> (c # w) # ws))"
  by pat_completeness auto
termination
  by (relation "measure (\<lambda>(prev, s). length s)")
     (auto simp add: length_dropWhile_le less_Suc_eq_le)

text \<open>\<^verbatim>\<open>_split_into_sentences\<close>.  Nothing stands before the first character.\<close>

definition split_into_sentences :: "string \<Rightarrow> string list" where
  "split_into_sentences paragraph =
     map strip (filter (\<lambda>s. strip s \<noteq> []) (split_after_marks CHR '' '' paragraph))"

text \<open>\<^verbatim>\<open>_extract_page_number\<close>: the digits of the first marker of the text.\<close>

fun search_marker :: "string \<Rightarrow> string option" where
  "search_marker [] = None"
| "search_marker (c # cs) =
     (case match_marker (c # cs) of
        Some (digits, rest) \<Rightarrow> Some digits
      | None \<Rightarrow> search_marker cs)"

definition extract_page_number :: "string \<Rightarrow> int option" where
  "extract_page_number text = map_option (\<lambda>digits. int (digits_value digits)) (search_marker text)"

subsection \<open>Page estimate\<close>

text \<open>\<^verbatim>\<open>EnhancedCitationService._estimate_page_number\<close>.  Python's \<^verbatim>\<open>//\<close> is
  floor division, as is \<open>div\<close> on \<^typ>\<open>int\<close>.\<close>

definition estimate_page_number :: "int \<Rightarrow> int \<Rightarrow> int \<Rightarrow> int" where
  "estimate_page_number paragraph_index total_paragraphs total_pages =
     (if total_paragraphs \<le> 1 then 1
      else min (1 + (paragraph_index * total_pages) div total_paragraphs) total_pages)"

subsection \<open>The citation index\<close>

text \<open>The citation metadata of a document.  The dictionaries of paragraphs and
  of sentences are keyed by \<^verbatim>\<open>str(index)\<close> in the code; the model keys them by the
  index itself.\<close>

record sentence_data =
  s_index :: nat
  s_text :: string

record paragraph_data =
  p_index :: nat
  p_page :: int
  p_text :: string
  p_sentence_count :: nat
  p_sentences :: "(nat \<times> sentence_data) list"

record citation_data =
  cd_document_id :: string
  cd_document_title :: "string entry"
  cd_paragraph_count :: nat
  cd_paragraphs :: "(nat \<times> paragraph_data) list"

text \<open>\<^verbatim>\<open>_extract_page_number(paragraph) or _estimate_page_number(...)\<close>, with
  \<^verbatim>\<open>document.get("page_count", 1)\<close> as the page count.  A page count that holds
  \<^verbatim>\<open>None\<close> raises in the multiplication of the estimate (\<open>None\<close> here).\<close>

definition paragraph_page :: "document \<Rightarrow> nat \<Rightarrow> nat \<Rightarrow> string \<Rightarrow> int option" where
  "paragraph_page document i n paragraph =
     (let estimate =
            (case get_default (page_count document) 1 of
               Value pc \<Rightarrow> Some (estimate_page_number (int i) (int n) pc)
             | _ \<Rightarrow> if int n \<le> 1 then Some 1 else None)
      in case extract_page_number paragraph of
           Some p \<Rightarrow> if p \<noteq> 0 then Some p else estimate
         | None \<Rightarrow> estimate)"

definition sentence_entries :: "string list \<Rightarrow> (nat \<times> sentence_data) list" where
  "sentence_entries sentences =
     map (\<lambda>(j, sentence). (j, \<lparr>s_index = j, s_text = sentence\<rparr>))
       (filter (\<lambda>(j, sentence). strip sentence \<noteq> []) (enumerate 0 sentences))"

definition paragraph_entry ::
  "document \<Rightarrow> nat \<Rightarrow> nat \<times> string \<Rightarrow> (nat \<times> paragraph_data) option" where
  "paragraph_entry document n ip =
     (case ip of
        (i, paragraph) \<Rightarrow>
          (case paragraph_page document i n paragraph of
             None \<Rightarrow> None
           | Some page_num \<Rightarrow>
               (let sentences = split_into_sentences paragraph
                in Some (i, \<lparr>p_index = i, p_page = page_num, p_text = paragraph,
                             p_sentence_count = length sentences,
                             p_sentences = sentence_entries sentences\<rparr>))))"

text \<open>The paragraph loop of \<^verbatim>\<open>process_document\<close>; \<open>None\<close> when a page raises.\<close>

definition paragraph_entries ::
  "document \<Rightarrow> string list \<Rightarrow> (nat \<times> paragraph_data) list option" where
  "paragraph_entries document paragraphs =
     (let entries = map (paragraph_entry document (length paragraphs))
                      (filter (\<lambda>(i, paragraph). strip paragraph \<noteq> [])
                         (enumerate 0 paragraphs))
      in if None \<in> set entries then None else Some (map the entries))"

text \<open>\<^verbatim>\<open>EnhancedCitationService.process_document\<close>, on the state
  \<^verbatim>\<open>self.citation_metadata\<close>.\<close>

definition citation_process_document ::
  "filesystem \<Rightarrow> (string \<times> citation_data) list \<Rightarrow> document
     \<Rightarrow> bool \<times> (string \<times> citation_data) list" where
  "citation_process_document fs0 citation_metadata document =
     (if status document \<noteq> Value ''processed'' \<or> processed_path document = Missing
      then (False, citation_metadata)
      else
        (case processed_path document of
           Value dir \<Rightarrow>
             (let text_file = os_path_join dir ''extracted_text.txt'' in
              if \<not> os_path_exists fs0 text_file then (False, citation_metadata)
              else
                (case files fs0 text_file of
                   None \<Rightarrow> (False, citation_metadata)
                 | Some text \<Rightarrow>
                     (let paragraphs = split_into_paragraphs text in
                      case paragraph_entries document paragraphs of
                        None \<Rightarrow> (False, citation_metadata)
                      | Some entries \<Rightarrow>
                          (True,
                           AList.update (doc_id document)
                             \<lparr>cd_document_id = doc_id document,
                              cd_document_title = get_default (title document) [],
                              cd_paragraph_count = length paragraphs,
                              cd_paragraphs = entries\<rparr>
                             citation_metadata))))
         | _ \<Rightarrow> (False, citation_metadata)))"

subsection \<open>Citation lookup\<close>

text \<open>\<^verbatim>\<open>_similarity_score\<close>.  \<^verbatim>\<open>re.findall(r'\b\w+\b', s)\<close> gives the maximal runs of
  word characters.  The score is a finite float, \<^verbatim>\<open>0.0\<close> or the quotient of two
  positive integers; the model gives its value, the exact quotient rounded by
  the rounding function \<open>rnd\<close> of the platform.\<close>

definition is_word_char :: "char \<Rightarrow> bool" where
  "is_word_char c =
     (c \<in> set ''abcdefghijklmnopqrstuvwxyzABCDEFGHIJKLMNOPQRSTUVWXYZ0123456789_'')"

fun findall_words :: "string \<Rightarrow> string list" where
  "findall_words [] = []"
| "findall_words (c # cs) =
     (if is_word_char c then
        (case cs of
           [] \<Rightarrow> [[c]]
         | d # ds \<Rightarrow>
             if is_word_char d then
               (case findall_words cs of
                  [] \<Rightarrow> [[c]]
                | w # ws \<Rightarrow> (c # w) # ws)
             else [c] # findall_words cs)
      else findall_words cs)"

definition similarity_score :: "(real \<Rightarrow> real) \<Rightarrow> string \<Rightarrow> string \<Rightarrow> real" where
  "similarity_score rnd text1 text2 =
     (let words1 = set (findall_words (lower text1));
          words2 = set (findall_words (lower text2))
      in if words1 = {} \<or> words2 = {} then 0
         else
           (let intersection = card (words1 \<inter> words2);
                union = card (words1 \<union> words2)
            in if 0 < union then rnd (real intersection / real union) else 0))"

text \<open>The search state of \<^verbatim>\<open>get_citation\<close>: \<^verbatim>\<open>best_score\<close>, and \<^verbatim>\<open>best_match\<close> with
  \<^verbatim>\<open>best_paragraph_idx\<close> and \<^verbatim>\<open>best_sentence_idx\<close>.\<close>

type_synonym best = "real \<times> (paragraph_data \<times> nat \<times> nat option) option"

definition check_sentence ::
  "(real \<Rightarrow> real) \<Rightarrow> string \<Rightarrow> nat \<Rightarrow> paragraph_data \<Rightarrow> best \<Rightarrow> nat \<times> sentence_data
     \<Rightarrow> best" where
  "check_sentence rnd chunk_text p_idx p_data b js =
     (case js of
        (s_idx, s_data) \<Rightarrow>
          if fst b < similarity_score rnd chunk_text (s_text s_data)
          then (similarity_score rnd chunk_text (s_text s_data),
                Some (p_data, p_idx, Some s_idx))
          else b)"

definition check_paragraph ::
  "(real \<Rightarrow> real) \<Rightarrow> string \<Rightarrow> string \<Rightarrow> best \<Rightarrow> nat \<times> paragraph_data \<Rightarrow> best" where
  "check_paragraph rnd chunk_text granularity b ip =
     (case ip of
        (p_idx, p_data) \<Rightarrow>
          (let b1 = (if fst b < similarity_score rnd chunk_text (p_text p_data)
                     then (similarity_score rnd chunk_text (p_text p_data),
                           Some (p_data, p_idx, None))
                     else b)
           in if granularity = ''sentence''
              then foldl (check_sentence rnd chunk_text p_idx p_data) b1 (p_sentences p_data)
              else b1))"

definition str_title :: "string entry \<Rightarrow> string" where
  "str_title e = (case e of Value t \<Rightarrow> t | _ \<Rightarrow> ''None'')"

definition paragraph_citation :: "paragraph_data \<Rightarrow> nat \<Rightarrow> string" where
  "paragraph_citation p_data p_idx =
     ''Page '' @ str_int (p_page p_data) @ '', Paragraph '' @ str_nat (p_idx + 1)"

text \<open>\<^verbatim>\<open>get_citation\<close>.\<close>

definition get_citation ::
  "(real \<Rightarrow> real) \<Rightarrow> (string \<times> citation_data) list \<Rightarrow> string \<Rightarrow> string \<Rightarrow> string
     \<Rightarrow> string" where
  "get_citation rnd citation_metadata document_id chunk_text granularity =
     (case map_of citation_metadata document_id of
        None \<Rightarrow> ''Document '' @ document_id
      | Some cd \<Rightarrow>
          if granularity = ''document''
          then ''Document: '' @ str_title (get_default (cd_document_title cd) document_id)
          else
            (case snd (foldl (check_paragraph rnd chunk_text granularity) (0, None)
                         (cd_paragraphs cd)) of
               None \<Rightarrow> ''Document: '' @ str_title (get_default (cd_document_title cd) document_id)
             | Some (p_data, p_idx, s_idx) \<Rightarrow>
                 if granularity = ''page'' then ''Page '' @ str_int (p_page p_data)
                 else if granularity = ''paragraph'' then paragraph_citation p_data p_idx
                 else
                   (case s_idx of
                      Some j \<Rightarrow>
                        if granularity = ''sentence''
                        then paragraph_citation p_data p_idx @ '', Sentence '' @ str_nat (j + 1)
                        else paragraph_citation p_data p_idx
                    | None \<Rightarrow> paragraph_citation p_data p_idx)))"

section \<open>Example data\<close>

definition example_config :: config where
  "example_config =
     \<lparr>PROCESSED_DIR = ''/data/processed'', OCR_ENGINE = ''tesseract'',
      OCR_LANGUAGE = ''eng'', MIN_THEME_DOCUMENTS = 2,
      THEME_SIMILARITY_THRESHOLD = 3 / 4\<rparr>"

definition uploaded_document :: "string \<Rightarrow> string \<Rightarrow> document" where
  "uploaded_document did ext =
     \<lparr>doc_id = did, title = Value ''Report'', original_filename = Value (''report.'' @ ext),
      file_path = Value (''/data/uploads/'' @ did @ ''.'' @ ext), file_type = Value ext,
      tags = Value [], status = Value ''processing'', page_count = PyNone,
      processed_path = PyNone, processed_time = Missing, text_length = Missing,
      error_message = Missing\<rparr>"

definition tool_failure :: py_exception where
  "tool_failure = PyExc OtherError ''tool failed''"

definition failing_tools :: "nat environment" where
  "failing_tools =
      \<lparr>pdftotext = (\<lambda>_. Inl tool_failure), pdfinfo = (\<lambda>_. Inl tool_failure),
       convert_from_path = (\<lambda>_. Inl tool_failure), image_open = (\<lambda>_. Inl tool_failure),
       image_to_string = (\<lambda>_ _. Inl tool_failure), paddle_ocr = (\<lambda>_ _. Inl tool_failure),
       docx2txt_process = (\<lambda>_. Inl tool_failure), docx2txt_tool = (\<lambda>_. Inl tool_failure),
       antiword = (\<lambda>_. Inl tool_failure), libreoffice = (\<lambda>_ _. Some tool_failure),
       read_text = (\<lambda>_. Inl tool_failure), os_error = (\<lambda>_. tool_failure),
       now = ''2025-05-16T14:00:00''\<rparr>"

definition scanned_tools :: "nat environment" where
  "scanned_tools =
     failing_tools
       \<lparr>pdftotext := (\<lambda>_. Inr (replicate 150 (CHR 0x0C))),
        pdfinfo := (\<lambda>_. Inr (''Title: Test'' @ [newline] @ ''Pages:          5'' @ [newline])),
        convert_from_path := (\<lambda>_. Inr [0, 1]),
        image_to_string := (\<lambda>i _. Inr (if i = 0 then ''first'' else ''second''))\<rparr>"

definition empty_state :: processor_state where
  "empty_state = \<lparr>documents = [], fs = \<lparr>files = Map.empty, dirs = {}\<rparr>\<rparr>"

definition text_pdf_tools :: "nat environment" where
  "text_pdf_tools = scanned_tools \<lparr>pdftotext := (\<lambda>_. Inr (replicate 900 (CHR ''a'')))\<rparr>"

text \<open>The PDF tools with a failing text tool, with a failing page-count tool,
  and with a page count that does not parse.\<close>

definition no_text_tools :: "nat environment" where
  "no_text_tools = scanned_tools \<lparr>pdftotext := (\<lambda>_. Inl tool_failure)\<rparr>"

definition no_count_tools :: "nat environment" where
  "no_count_tools = text_pdf_tools \<lparr>pdfinfo := (\<lambda>_. Inl tool_failure)\<rparr>"

definition bad_count_tools :: "nat environment" where
  "bad_count_tools = text_pdf_tools \<lparr>pdfinfo := (\<lambda>_. Inr ''Pages: many'')\<rparr>"

definition example_state :: processor_state where
  "example_state =
     \<lparr>documents = [(''d1'', uploaded_document ''d1'' ''txt''
                               \<lparr>status := Value ''processed'', page_count := Value 1,
                                processed_path := Value ''/data/processed/d1''\<rparr>)],
      fs = \<lparr>files = [''/data/uploads/d1.txt'' \<mapsto> ''hello'',
                      ''/data/processed/d1/extracted_text.txt'' \<mapsto> ''hello''],
             dirs = {''/data/processed/d1''}\<rparr>\<rparr>"

lemmas example_defs =
  example_config_def uploaded_document_def tool_failure_def failing_tools_def
  scanned_tools_def text_pdf_tools_def empty_state_def example_state_def

lemmas string_defs =
  newline_def is_space_def lstrip_def rstrip_def strip_def is_digit_def digit_val_def
  digit_char_def str_nat.simps str_int_def digits_value_def parse_digits_def py_int_def
  lower_char_def lower_def startswith_def endswith_def os_path_join_def

definition scanned_ocr_text :: string where
  "scanned_ocr_text =
     ''--- Page 1 ---'' @ [newline] @ ''first'' @ [newline] @ [newline]
       @ ''--- Page 2 ---'' @ [newline] @ ''second'' @ [newline]"

lemmas pdf_defs =
  process_pdf_def process_pdf_with_ocr_def ocr_engine_text_def page_marker_def
  scanned_ocr_text_def

definition example_metadata :: "string \<Rightarrow> string \<Rightarrow> int \<Rightarrow> metadata" where
  "example_metadata did cid p =
     \<lparr>md_chunk_id = Value cid, md_document_id = Value did,
      md_document_title = Value ''Report'', md_page = Value p, md_chunk_index = Value 0,
      md_source = Value ''report.txt'', md_file_type = Value ''txt''\<rparr>"

definition example_chunk :: "string \<Rightarrow> string \<Rightarrow> int \<Rightarrow> lc_document" where
  "example_chunk did cid p =
     \<lparr>page_content = ''climate change'', metadata = example_metadata did cid p\<rparr>"

text \<open>An index library that appends what it is given, answers \<^verbatim>\<open>get\<close> and
  \<^verbatim>\<open>delete\<close> by the chunk id of the metadata, and ranks every chunk at the
  distance \<open>1/4\<close>; a clustering that puts all chunks into one cluster; an
  arithmetic without rounding errors.\<close>

definition example_index :: index_environment where
  "example_index =
     \<lparr>split_text = (\<lambda>t. [t]),
      embed = (\<lambda>t. [1, 0]),
      db_add_documents =
        (\<lambda>store docs.
           (None, store @ map (\<lambda>d. \<lparr>sc_document = d, sc_embedding = [1, 0]\<rparr>) docs)),
      db_delete =
        (\<lambda>store c.
           (None, filter (\<lambda>s. md_chunk_id (metadata (sc_document s)) \<noteq> Value c) store)),
      db_persist = (\<lambda>store. None),
      db_get =
        (\<lambda>store c.
           case filter (\<lambda>s. md_chunk_id (metadata (sc_document s)) = Value c) store of
             [] \<Rightarrow> Inr None
           | s # _ \<Rightarrow>
               Inr (Some \<lparr>gr_documents = [page_content (sc_document s)],
                          gr_metadatas = [metadata (sc_document s)],
                          gr_embeddings = [sc_embedding s]\<rparr>)),
      similarity_search_with_score =
        (\<lambda>store q k ids. Inr (map (\<lambda>s. (sc_document s, Fin (1 / 4))) (take (nat k) store))),
      cluster_labels = (\<lambda>eps m es. Inr (map (\<lambda>e. 0) es)),
      common_words = (\<lambda>t. Some [''climate'', ''change'']),
      uuid4 = (\<lambda>n. ''theme-'' @ str_int n),
      float_round = (\<lambda>x. x)\<rparr>"

text \<open>An index library whose \<^verbatim>\<open>get\<close> and \<^verbatim>\<open>delete\<close> do not take the keyword
  \<^verbatim>\<open>filter\<close>.\<close>

definition filter_error :: py_exception where
  "filter_error = PyExc OtherError ''got an unexpected keyword argument filter''"

definition strict_index :: index_environment where
  "strict_index =
     example_index
       \<lparr>db_delete := (\<lambda>store c. (Some filter_error, store)),
        db_get := (\<lambda>store c. Inl filter_error)\<rparr>"

definition empty_vector :: vector_state where
  "empty_vector = \<lparr>vector_db = [], chunk_metadata = []\<rparr>"

definition example_vector :: vector_state where
  "example_vector =
     \<lparr>vector_db = [\<lparr>sc_document = example_chunk ''d1'' ''d1_chunk_0'' 1, sc_embedding = [1, 0]\<rparr>],
      chunk_metadata = [(''d1'', [''d1_chunk_0''])]\<rparr>"

text \<open>A processed PDF of ten pages, and a splitter that cuts its text into
  four chunks.\<close>

definition four_chunk_index :: index_environment where
  "four_chunk_index =
     example_index \<lparr>split_text := (\<lambda>t. [''one'', ''two'', ''three'', ''four''])\<rparr>"

definition ten_page_document :: document where
  "ten_page_document =
     uploaded_document ''d2'' ''pdf''
       \<lparr>status := Value ''processed'', page_count := Value 10,
        processed_path := Value ''/data/processed/d2''\<rparr>"

definition ten_page_filesystem :: filesystem where
  "ten_page_filesystem =
     \<lparr>files = [''/data/processed/d2/extracted_text.txt'' \<mapsto> ''one two three four''],
      dirs = {''/data/processed/d2''}\<rparr>"

definition marker_text_tools :: "nat environment" where
  "marker_text_tools =
     failing_tools \<lparr>read_text := (\<lambda>_. Inr (''--- Page 7 ---'' @ [newline] @ ''hello''))\<rparr>"

definition processed_with :: "nat environment \<Rightarrow> string \<Rightarrow> document" where
  "processed_with env did =
     fst (snd (process_document example_config env empty_state (uploaded_document did ''txt'')))"

definition filesystem_with :: "nat environment \<Rightarrow> string \<Rightarrow> filesystem" where
  "filesystem_with env did =
     fs (snd (snd (process_document example_config env empty_state (uploaded_document did ''txt''))))"

lemmas vdb_defs =
  vdb_add_document_def langchain_docs_def langchain_doc_def
  chunk_page_def chunk_page_info_def chunk_id_of_def get_default_def os_path_exists_def
  vdb_search_def format_result_def relevance_of_distance_def py_min_def str_page_def
  filter_dict_def vdb_delete_document_def domIff Let_def

lemmas processing_defs =
  process_document_def process_try_def extract_text_def process_text_def estimated_pages_def
  os_makedirs_def write_file_def Let_def

definition example_system :: system where
  "example_system = \<lparr>processor = example_state, vector = example_vector\<rparr>"

definition stored_chunk :: "string \<Rightarrow> string \<Rightarrow> int \<Rightarrow> stored" where
  "stored_chunk did cid p = \<lparr>sc_document = example_chunk did cid p, sc_embedding = [1, 0]\<rparr>"

definition two_document_vector :: vector_state where
  "two_document_vector =
     \<lparr>vector_db = [stored_chunk ''d1'' ''d1_chunk_0'' 1, stored_chunk ''d2'' ''d2_chunk_0'' 3],
      chunk_metadata = [(''d1'', [''d1_chunk_0'']), (''d2'', [''d2_chunk_0''])]\<rparr>"

text \<open>The processed document \<open>d1\<close> of the registry, with the index of the two
  chunks.\<close>

definition two_chunk_system :: system where
  "two_chunk_system = \<lparr>processor = example_state, vector = two_document_vector\<rparr>"

definition same_document_vector :: vector_state where
  "same_document_vector =
     \<lparr>vector_db = [stored_chunk ''d1'' ''d1_chunk_0'' 1, stored_chunk ''d1'' ''d1_chunk_1'' 2],
      chunk_metadata = [(''d1'', [''d1_chunk_0'', ''d1_chunk_1''])]\<rparr>"

definition two_document_state :: processor_state where
  "two_document_state =
     \<lparr>documents = [(''d1'', uploaded_document ''d1'' ''txt''), (''d2'', uploaded_document ''d2'' ''txt'')],
      fs = \<lparr>files = Map.empty, dirs = {}\<rparr>\<rparr>"

lemmas theme_defs =
  theme_identify_themes_def query_identify_themes_def collect_document_chunks_def
  chunk_map_of_def all_chunks_of_def get_document_embeddings_def chunk_embedding_def
  theme_of_cluster_def query_theme_of_cluster_def themes_of_def group_clusters_def
  add_to_cluster_def theme_name_of_def theme_description_of_def
  document_result_of_def citation_of_result_def error_response_def list_documents_def
  get_document_def

lemmas theme_example_defs =
  stored_chunk_def two_document_vector_def same_document_vector_def two_document_state_def
  example_chunk_def example_metadata_def example_index_def

subsection \<open>Segmentation of the citation index\<close>

text \<open>The segmentation that \<^verbatim>\<open>process_document\<close> has stored for a document: the
  paragraph texts in order, each with the texts of its sentences in order.\<close>

definition stored_segmentation :: "citation_data \<Rightarrow> (string \<times> string list) list" where
  "stored_segmentation cd =
     map (\<lambda>(i, p). (p_text p, map (\<lambda>(j, s). s_text s) (p_sentences p))) (cd_paragraphs cd)"

text \<open>The segmentation of a text as the two splitting functions give it.\<close>

definition text_segmentation :: "string \<Rightarrow> (string \<times> string list) list" where
  "text_segmentation text =
     map (\<lambda>p. (p, split_into_sentences p)) (split_into_paragraphs text)"

text \<open>A text document of one paragraph and two sentences, and the citation index
  of the service after it has processed that document.\<close>

definition climate_text :: string where
  "climate_text = ''Climate change is real. It is warm.''"

definition climate_text_tools :: "nat environment" where
  "climate_text_tools = failing_tools \<lparr>read_text := (\<lambda>_. Inr climate_text)\<rparr>"

definition citation_index_of :: "string \<Rightarrow> (string \<times> citation_data) list" where
  "citation_index_of did =
     snd (citation_process_document (filesystem_with climate_text_tools did) []
            (processed_with climate_text_tools did))"

lemmas segmentation_defs =
  split_into_paragraphs_def split_into_sentences_def match_marker_def blank_line_match_def
  extract_page_number_def paragraph_page_def sentence_entries_def paragraph_entry_def
  paragraph_entries_def citation_process_document_def estimate_page_number_def

text \<open>A scanned PDF of two pages, with one paragraph on the first page and five
  on the second: the text tool fails, the pages are recognised one by one.
  The document as the document processor leaves it, and the citation index
  of the service after it has processed that document.\<close>

definition two_page_scan_tools :: "nat environment" where
  "two_page_scan_tools =
     failing_tools
       \<lparr>convert_from_path := (\<lambda>_. Inr [0, 1]),
        image_to_string :=
          (\<lambda>i _. Inr (if i = 0 then ''A''
                       else ''B1'' @ [newline, newline] @ ''B2'' @ [newline, newline] @ ''B3''
                            @ [newline, newline] @ ''B4'' @ [newline, newline] @ ''B5''))\<rparr>"

definition scanned_text :: string where
  "scanned_text =
     ''--- Page 1 ---'' @ [newline] @ ''A'' @ [newline, newline]
       @ ''--- Page 2 ---'' @ [newline] @ ''B1'' @ [newline, newline] @ ''B2''
       @ [newline, newline] @ ''B3'' @ [newline, newline] @ ''B4'' @ [newline, newline]
       @ ''B5'' @ [newline]"

definition scanned_document :: document where
  "scanned_document =
     fst (snd (process_document example_config two_page_scan_tools empty_state
                 (uploaded_document ''d9'' ''pdf'')))"

definition scanned_filesystem :: filesystem where
  "scanned_filesystem =
     fs (snd (snd (process_document example_config two_page_scan_tools empty_state
                     (uploaded_document ''d9'' ''pdf''))))"

definition scanned_citation_index :: "(string \<times> citation_data) list" where
  "scanned_citation_index =
     snd (citation_process_document scanned_filesystem [] scanned_document)"

section \<open>Properties of the page estimate\<close>

lemma estimate_page_number_lower:
  assumes "0 \<le> i" and "1 \<le> tp"
  shows "1 \<le> estimate_page_number i n tp"
proof (cases "n \<le> 1")
  case True
  then show ?thesis by (simp add: estimate_page_number_def)
next
  case False
  then have n: "0 < n" by simp
  from assms have "0 \<le> i * tp" by simp
  with n have "0 \<le> (i * tp) div n" by (simp add: pos_imp_zdiv_nonneg_iff)
  with False assms show ?thesis by (simp add: estimate_page_number_def)
qed

lemma estimate_page_number_upper:
  assumes "1 \<le> tp"
  shows "estimate_page_number i n tp \<le> tp"
  using assms by (simp add: estimate_page_number_def)

lemma estimate_page_number_mono:
  assumes "i \<le> j" and "0 \<le> tp"
  shows "estimate_page_number i n tp \<le> estimate_page_number j n tp"
proof (cases "n \<le> 1")
  case True
  then show ?thesis by (simp add: estimate_page_number_def)
next
  case False
  then have n: "0 < n" by simp
  from assms have "i * tp \<le> j * tp" by (simp add: mult_right_mono)
  with n have "(i * tp) div n \<le> (j * tp) div n" by (simp add: zdiv_mono1)
  with False show ?thesis by (auto simp add: estimate_page_number_def min_def)
qed

section \<open>Properties of the document processor\<close>

text \<open>
  C10.  For every \<open>document_id\<close> that is not in the registry,
  \<^verbatim>\<open>DocumentProcessor.delete_document\<close> returns \<^verbatim>\<open>False\<close> and leaves the whole state
  as it was: the registry is unchanged and no file is touched.  After a call that
  returns \<^verbatim>\<open>True\<close>, \<^verbatim>\<open>get_document\<close> on that \<open>document_id\<close> returns \<^verbatim>\<open>None\<close>.
\<close>

theorem delete_document_absent_or_removed:
  "(get_document st document_id = None \<longrightarrow> delete_document st document_id = (False, st))
   \<and> (fst (delete_document st document_id)
        \<longrightarrow> get_document (snd (delete_document st document_id)) document_id = None)"
  by (auto simp add: delete_document_def get_document_def delete_conv split: option.splits)

theorem delete_document_absent_or_removed_witness:
  "delete_document example_state ''nonexistent'' = (False, example_state)
   \<and> fst (delete_document example_state ''d1'')
   \<and> get_document (snd (delete_document example_state ''d1'')) ''d1'' = None"
  using delete_document_absent_or_removed [of example_state "''nonexistent''"]
    delete_document_absent_or_removed [of example_state "''d1''"]
  by (simp add: get_document_def delete_document_def delete_path_def os_path_exists_def
      os_remove_def shutil_rmtree_def example_defs)

text \<open>
  C3.  When the \<^verbatim>\<open>try\<close> of \<^verbatim>\<open>process_document\<close> ends in an exception \<open>e\<close> (the
  extraction chain of the format is exhausted, or a file-system call fails),
  the method returns \<^verbatim>\<open>False\<close>, the document dictionary gets status \<^verbatim>\<open>"error"\<close>
  (never \<^verbatim>\<open>"failed"\<close>) and \<^verbatim>\<open>error_message = str(e)\<close>, everything else in it is
  kept, and the registry holds that dictionary under the document's id.
\<close>

theorem process_document_terminal_failure:
  assumes "file_path document \<noteq> Missing"
    and "file_type document = Value ft"
    and "snd (process_try cfg env (fs st) (doc_id document) (lower ft)
               (case file_path document of Value p \<Rightarrow> Some p | _ \<Rightarrow> None)) = Inl e"
  shows "(case process_document cfg env st document of
            (result, document', st') \<Rightarrow>
              result = Inr False
              \<and> document' = document\<lparr>status := Value ''error'',
                                       error_message := Value (exc_message e)\<rparr>
              \<and> status document' \<noteq> Value ''failed''
              \<and> get_document st' (doc_id document) = Some document')"
proof -
  obtain fs' where "process_try cfg env (fs st) (doc_id document) (lower ft)
      (case file_path document of Value p \<Rightarrow> Some p | _ \<Rightarrow> None) = (fs', Inl e)"
    using assms(3) by (metis prod.collapse)
  with assms(1,2) show ?thesis
    by (cases "file_path document")
       (simp_all add: process_document_def get_document_def update_conv Let_def)
qed

theorem process_document_terminal_failure_witness:
  "(case process_document example_config failing_tools empty_state (uploaded_document ''d1'' ''txt'') of
      (result, document', st') \<Rightarrow>
        result = Inr False
        \<and> status document' = Value ''error''
        \<and> error_message document' = Value ''tool failed''
        \<and> get_document st' ''d1'' = Some document')"
  using process_document_terminal_failure
    [of "uploaded_document ''d1'' ''txt''" "''txt''" example_config failing_tools empty_state tool_failure]
  by (simp add: process_try_def extract_text_def process_text_def os_makedirs_def
      example_defs string_defs split: prod.splits)

text \<open>A text document whose file cannot be read: the extraction ends in an
  exception, and the recorded status is \<^verbatim>\<open>"error"\<close>, not \<^verbatim>\<open>"failed"\<close>.\<close>

theorem process_document_status_error_not_failed:
  "snd (process_try example_config failing_tools (fs empty_state) ''d1'' ''txt''
          (Some ''/data/uploads/d1.txt'')) = Inl tool_failure
   \<and> status (fst (snd (process_document example_config failing_tools empty_state
                          (uploaded_document ''d1'' ''txt'')))) = Value ''error''
   \<and> status (fst (snd (process_document example_config failing_tools empty_state
                          (uploaded_document ''d1'' ''txt'')))) \<noteq> Value ''failed''"
  by (simp add: process_document_def process_try_def extract_text_def process_text_def
      os_makedirs_def example_defs string_defs Let_def)

text \<open>The OCR loop returns one text per page image, each opening with the marker
  of its page.\<close>

lemma ocr_pages_Inr:
  "ocr_pages cfg env d i images = Inr ts \<Longrightarrow>
     length ts = length images
     \<and> (\<forall>k<length images. startswith (ts ! k) (page_marker (i + k + 1) @ [newline]))"
proof (induction images arbitrary: i ts)
  case Nil
  then show ?case by simp
next
  case (Cons img rest)
  from Cons.prems obtain page_text all_text where
    rest: "ocr_pages cfg env d (i + 1) rest = Inr all_text" and
    ts: "ts = (page_marker (i + 1) @ [newline] @ page_text @ [newline]) # all_text"
    by (auto split: sum.splits)
  from Cons.IH [OF rest] have
    len: "length all_text = length rest" and
    marks: "\<forall>k<length rest. startswith (all_text ! k) (page_marker (i + 1 + k + 1) @ [newline])"
    by simp_all
  have "startswith (ts ! k) (page_marker (i + k + 1) @ [newline])" if "k < length (img # rest)" for k
  proof (cases k)
    case 0
    then show ?thesis by (simp add: ts startswith_def)
  next
    case (Suc m)
    with that marks show ?thesis by (simp add: ts)
  qed
  with len ts show ?case by simp
qed

lemma process_pdf_with_ocr_Inr:
  assumes "process_pdf_with_ocr cfg env path out = Inr (t, n)"
  shows "\<exists>images pages. convert_from_path env path = Inr images
            \<and> n = int (length images)
            \<and> length pages = length images
            \<and> t = join [newline] pages
            \<and> (\<forall>k<length images. startswith (pages ! k) (page_marker (k + 1) @ [newline]))"
proof -
  from assms obtain images pages where
    c: "convert_from_path env path = Inr images" and
    o: "ocr_pages cfg env (os_path_join out ''page_images'') 0 images = Inr pages" and
    r: "t = join [newline] pages" "n = int (length images)"
    by (auto simp add: process_pdf_with_ocr_def split: sum.splits)
  from ocr_pages_Inr [OF o] c r show ?thesis by auto
qed

text \<open>
  C8.  \<^verbatim>\<open>_process_pdf\<close> returns what the OCR path (rasterise every page,
  recognise it) returns in each of these cases: the direct extraction returns
  a text that, \<^emph>\<open>without its surrounding whitespace\<close>, is shorter than 100
  characters; the text tool fails; the text is long enough and the page-count
  tool fails, or prints a page count that does not parse.  When the text
  without its surrounding whitespace has at least 100 characters and the
  page-count tool succeeds with a count that parses, the direct path is used:
  the result is the text as extracted and the count of the tool.  Whenever the
  OCR path returns, its page count is the number of rasterised pages and its
  text is the page texts joined by newlines, the text of page \<open>k\<close> opening with
  the line \<^verbatim>\<open>--- Page k ---\<close>.
\<close>

theorem process_pdf_paths:
  "(pdftotext env path = Inr content \<and> length (strip content) < 100
      \<longrightarrow> process_pdf cfg env path out = process_pdf_with_ocr cfg env path out)
   \<and> (pdftotext env path = Inl e
      \<longrightarrow> process_pdf cfg env path out = process_pdf_with_ocr cfg env path out)
   \<and> (pdftotext env path = Inr content \<and> 100 \<le> length (strip content)
        \<and> pdfinfo env path = Inl e
      \<longrightarrow> process_pdf cfg env path out = process_pdf_with_ocr cfg env path out)
   \<and> (pdftotext env path = Inr content \<and> 100 \<le> length (strip content)
        \<and> pdfinfo env path = Inr info
        \<and> pdfinfo_page_count (split_char newline info) = None
      \<longrightarrow> process_pdf cfg env path out = process_pdf_with_ocr cfg env path out)
   \<and> (pdftotext env path = Inr content \<and> 100 \<le> length (strip content)
        \<and> pdfinfo env path = Inr info
        \<and> pdfinfo_page_count (split_char newline info) = Some pc
      \<longrightarrow> process_pdf cfg env path out = Inr (content, pc))
   \<and> (process_pdf_with_ocr cfg env path out = Inr (t, n)
      \<longrightarrow> (\<exists>images pages. convert_from_path env path = Inr images
            \<and> n = int (length images)
            \<and> length pages = length images
            \<and> t = join [newline] pages
            \<and> (\<forall>k<length images. startswith (pages ! k) (page_marker (k + 1) @ [newline]))))"
proof (intro conjI impI)
  assume "pdftotext env path = Inr content \<and> length (strip content) < 100"
  then show "process_pdf cfg env path out = process_pdf_with_ocr cfg env path out"
    by (simp add: process_pdf_def split: sum.splits)
next
  assume "pdftotext env path = Inl e"
  then show "process_pdf cfg env path out = process_pdf_with_ocr cfg env path out"
    by (simp add: process_pdf_def)
next
  assume "pdftotext env path = Inr content \<and> 100 \<le> length (strip content)
        \<and> pdfinfo env path = Inl e"
  then show "process_pdf cfg env path out = process_pdf_with_ocr cfg env path out"
    by (simp add: process_pdf_def)
next
  assume "pdftotext env path = Inr content \<and> 100 \<le> length (strip content)
        \<and> pdfinfo env path = Inr info
        \<and> pdfinfo_page_count (split_char newline info) = None"
  then show "process_pdf cfg env path out = process_pdf_with_ocr cfg env path out"
    by (simp add: process_pdf_def)
next
  assume "pdftotext env path = Inr content \<and> 100 \<le> length (strip content)
        \<and> pdfinfo env path = Inr info
        \<and> pdfinfo_page_count (split_char newline info) = Some pc"
  then show "process_pdf cfg env path out = Inr (content, pc)"
    by (simp add: process_pdf_def)
next
  assume "process_pdf_with_ocr cfg env path out = Inr (t, n)"
  then show "\<exists>images pages. convert_from_path env path = Inr images
            \<and> n = int (length images)
            \<and> length pages = length images
            \<and> t = join [newline] pages
            \<and> (\<forall>k<length images. startswith (pages ! k) (page_marker (k + 1) @ [newline]))"
    by (rule process_pdf_with_ocr_Inr)
qed

text \<open>A scanned PDF (blank direct text), a PDF with a text layer, and the same
  PDFs with a failing text tool, a failing page-count tool and a page count
  that does not parse.\<close>

theorem process_pdf_paths_witness:
  "process_pdf example_config scanned_tools (Some ''/data/uploads/d2.pdf'') ''/data/processed/d2''
     = Inr (scanned_ocr_text, 2)
   \<and> convert_from_path scanned_tools (Some ''/data/uploads/d2.pdf'') = Inr [0, 1]
   \<and> process_pdf example_config text_pdf_tools (Some ''/data/uploads/d3.pdf'') ''/data/processed/d3''
     = Inr (replicate 900 (CHR ''a''), 5)
   \<and> process_pdf example_config no_text_tools (Some ''/data/uploads/d2.pdf'') ''/data/processed/d2''
     = Inr (scanned_ocr_text, 2)
   \<and> process_pdf example_config no_count_tools (Some ''/data/uploads/d3.pdf'') ''/data/processed/d3''
     = Inr (scanned_ocr_text, 2)
   \<and> process_pdf example_config bad_count_tools (Some ''/data/uploads/d3.pdf'') ''/data/processed/d3''
     = Inr (scanned_ocr_text, 2)"
proof -
  let ?p = "Some ''/data/uploads/d2.pdf''" and ?q = "Some ''/data/uploads/d3.pdf''"
  let ?info = "''Title: Test'' @ [newline] @ ''Pages:          5'' @ [newline]"
  let ?blank = "replicate 150 (CHR 0x0C)" and ?long = "replicate 900 (CHR ''a'')"
  have ocr: "process_pdf_with_ocr example_config scanned_tools path out
               = Inr (scanned_ocr_text, 2)" for path out
    by (simp add: pdf_defs example_defs string_defs)
  have ocr_same: "process_pdf_with_ocr example_config env path out
                    = process_pdf_with_ocr example_config scanned_tools path out"
    if "convert_from_path env = convert_from_path scanned_tools"
      and "image_to_string env = image_to_string scanned_tools" for env path out
  proof -
    have "ocr_pages example_config env d i images
            = ocr_pages example_config scanned_tools d i images" for d i images
      by (induction images arbitrary: i)
         (auto simp add: ocr_engine_text_def example_config_def that(2) split: sum.splits)
    then show ?thesis
      by (simp add: process_pdf_with_ocr_def that(1) split: sum.splits)
  qed
  have ocr1: "process_pdf_with_ocr example_config no_text_tools path out
                = Inr (scanned_ocr_text, 2)" for path out
    using ocr_same [of no_text_tools path out] by (simp add: ocr no_text_tools_def)
  have ocr2: "process_pdf_with_ocr example_config no_count_tools path out
                = Inr (scanned_ocr_text, 2)" for path out
    using ocr_same [of no_count_tools path out] by (simp add: ocr no_count_tools_def text_pdf_tools_def)
  have ocr3: "process_pdf_with_ocr example_config bad_count_tools path out
                = Inr (scanned_ocr_text, 2)" for path out
    using ocr_same [of bad_count_tools path out] by (simp add: ocr bad_count_tools_def text_pdf_tools_def)
  have images: "convert_from_path scanned_tools ?p = Inr [0, 1]"
    by (simp add: example_defs)
  have short: "pdftotext scanned_tools ?p = Inr ?blank \<and> length (strip ?blank) < 100"
    by (simp add: example_defs string_defs)
  have "process_pdf example_config scanned_tools ?p ''/data/processed/d2''
      = process_pdf_with_ocr example_config scanned_tools ?p ''/data/processed/d2''"
    using short
      process_pdf_paths [where env = scanned_tools and path = ?p and content = ?blank
        and cfg = example_config and out = "''/data/processed/d2''"]
    by blast
  then have a: "process_pdf example_config scanned_tools ?p ''/data/processed/d2''
      = Inr (scanned_ocr_text, 2)"
    by (simp only: ocr)
  have long: "pdftotext text_pdf_tools ?q = Inr ?long \<and> 100 \<le> length (strip ?long)
      \<and> pdfinfo text_pdf_tools ?q = Inr ?info
      \<and> pdfinfo_page_count (split_char newline ?info) = Some 5"
    by (simp add: example_defs string_defs)
  have b: "process_pdf example_config text_pdf_tools ?q ''/data/processed/d3''
      = Inr (?long, 5)"
    using long
      process_pdf_paths [where env = text_pdf_tools and path = ?q and content = ?long
        and cfg = example_config and out = "''/data/processed/d3''" and info = ?info
        and pc = 5]
    by blast
  have notext: "pdftotext no_text_tools ?p = Inl tool_failure"
    by (simp add: no_text_tools_def)
  have "process_pdf example_config no_text_tools ?p ''/data/processed/d2''
      = process_pdf_with_ocr example_config no_text_tools ?p ''/data/processed/d2''"
    using notext
      process_pdf_paths [where env = no_text_tools and path = ?p and e = tool_failure
        and cfg = example_config and out = "''/data/processed/d2''"]
    by blast
  then have c: "process_pdf example_config no_text_tools ?p ''/data/processed/d2''
      = Inr (scanned_ocr_text, 2)"
    by (simp only: ocr1)
  have nocount: "pdftotext no_count_tools ?q = Inr ?long \<and> 100 \<le> length (strip ?long)
      \<and> pdfinfo no_count_tools ?q = Inl tool_failure"
    by (simp add: no_count_tools_def example_defs string_defs)
  have "process_pdf example_config no_count_tools ?q ''/data/processed/d3''
      = process_pdf_with_ocr example_config no_count_tools ?q ''/data/processed/d3''"
    using nocount
      process_pdf_paths [where env = no_count_tools and path = ?q and content = ?long
        and e = tool_failure and cfg = example_config and out = "''/data/processed/d3''"]
    by blast
  then have d: "process_pdf example_config no_count_tools ?q ''/data/processed/d3''
      = Inr (scanned_ocr_text, 2)"
    by (simp only: ocr2)
  have badcount: "pdftotext bad_count_tools ?q = Inr ?long \<and> 100 \<le> length (strip ?long)
      \<and> pdfinfo bad_count_tools ?q = Inr ''Pages: many''
      \<and> pdfinfo_page_count (split_char newline ''Pages: many'') = None"
    by (simp add: bad_count_tools_def example_defs string_defs)
  have "process_pdf example_config bad_count_tools ?q ''/data/processed/d3''
      = process_pdf_with_ocr example_config bad_count_tools ?q ''/data/processed/d3''"
    using badcount
      process_pdf_paths [where env = bad_count_tools and path = ?q and content = ?long
        and info = "''Pages: many''" and cfg = example_config
        and out = "''/data/processed/d3''"]
    by blast
  then have e: "process_pdf example_config bad_count_tools ?q ''/data/processed/d3''
      = Inr (scanned_ocr_text, 2)"
    by (simp only: ocr3)
  show ?thesis
    by (intro conjI a images b c d e)
qed

text \<open>A scanned PDF for which the text tool prints 150 form feeds: the direct
  text has 150 characters, the page-count tool answers 5, and yet the OCR path
  is taken and the page count is the number of rasterised pages.\<close>

theorem process_pdf_long_blank_text_uses_ocr:
  "pdftotext scanned_tools (Some ''/data/uploads/d2.pdf'') = Inr (replicate 150 (CHR 0x0C))
   \<and> 100 \<le> length (replicate 150 (CHR 0x0C))
   \<and> pdfinfo scanned_tools (Some ''/data/uploads/d2.pdf'')
       = Inr (''Title: Test'' @ [newline] @ ''Pages:          5'' @ [newline])
   \<and> pdfinfo_page_count
       (split_char newline (''Title: Test'' @ [newline] @ ''Pages:          5'' @ [newline])) = Some 5
   \<and> process_pdf example_config scanned_tools (Some ''/data/uploads/d2.pdf'') ''/data/processed/d2''
       = Inr (scanned_ocr_text, 2)"
  by (simp add: pdf_defs example_defs string_defs)

section \<open>Properties of the vector database service\<close>

subsection \<open>Relevance scores\<close>

text \<open>The relevance score of a finite distance and of an infinite one.\<close>

lemma relevance_of_distance_Fin:
  "relevance_of_distance ienv (Fin d) = Fin (float_round ienv (1 - min d 1))"
  by (simp add: relevance_of_distance_def py_min_def min_def)

lemma relevance_of_distance_PosInf:
  "relevance_of_distance ienv PosInf = Fin (float_round ienv 0)"
  by (simp add: relevance_of_distance_def py_min_def)

lemma relevance_of_distance_range:
  assumes "mono (float_round ienv)" and "float_round ienv 0 = 0" and "float_round ienv 1 = 1"
    and "float_le (Fin 0) d"
  shows "float_le (Fin 0) (relevance_of_distance ienv d)
       \<and> float_le (relevance_of_distance ienv d) (Fin 1)"
proof (cases d)
  case (Fin x)
  with assms(4) have x: "0 \<le> x" by simp
  then have lo: "0 \<le> 1 - min x 1" and hi: "1 - min x 1 \<le> 1" by simp_all
  from monoD [OF assms(1) lo] monoD [OF assms(1) hi]
  have "float_round ienv 0 \<le> float_round ienv (1 - min x 1)"
    and "float_round ienv (1 - min x 1) \<le> float_round ienv 1"
    by simp_all
  with assms(2,3) Fin show ?thesis by (simp add: relevance_of_distance_Fin)
next
  case PosInf
  with assms(2) show ?thesis by (simp add: relevance_of_distance_PosInf)
qed (use assms(4) in simp_all)

lemma relevance_of_distance_antimono:
  assumes "mono (float_round ienv)" and "float_le (Fin 0) d1" and "float_le d1 d2"
  shows "float_le (relevance_of_distance ienv d2) (relevance_of_distance ienv d1)"
proof (cases d1)
  case d1: (Fin x)
  show ?thesis
  proof (cases d2)
    case (Fin y)
    with d1 assms(3) have "x \<le> y" by simp
    then have "1 - min y 1 \<le> 1 - min x 1" by simp
    from monoD [OF assms(1) this]
    have "float_round ienv (1 - min y 1) \<le> float_round ienv (1 - min x 1)" .
    with d1 Fin show ?thesis by (simp add: relevance_of_distance_Fin)
  next
    case PosInf
    have "0 \<le> 1 - min x 1" by simp
    from monoD [OF assms(1) this]
    have "float_round ienv 0 \<le> float_round ienv (1 - min x 1)" .
    with d1 PosInf show ?thesis
      by (simp add: relevance_of_distance_Fin relevance_of_distance_PosInf)
  qed (use d1 assms(3) in simp_all)
next
  case d1: PosInf
  with assms(3) have "d2 = PosInf" by (cases d2) simp_all
  with d1 show ?thesis by (simp add: relevance_of_distance_PosInf)
qed (use assms(2) in simp_all)

text \<open>
  C5.  Let the external index answer a search with the raw hits \<open>hits\<close>, each
  with a distance that is a number and not negative (what the index returns
  for its default metric), and let the rounding of the floating-point
  arithmetic be monotone and exact on 0 and 1.  Then \<^verbatim>\<open>search\<close> returns one
  formatted result per hit, in the order of the hits and built from that hit;
  the relevance score of each is \<^verbatim>\<open>1.0 - min(d, 1.0)\<close> for the distance \<open>d\<close> of
  its hit, which for a finite \<open>d\<close> is \<open>1 - min d 1\<close> rounded; every relevance
  score lies in \<open>[0, 1]\<close>; and for distances \<open>d1 \<le> d2\<close> the score of \<open>d1\<close> is at
  least the score of \<open>d2\<close>.
\<close>

theorem search_relevance_scores:
  assumes "similarity_search_with_score ienv (vector_db vs) query max_results
             (filter_dict document_ids) = Inr hits"
    and "\<forall>hit \<in> set hits. float_le (Fin 0) (snd hit)"
    and "mono (float_round ienv)" and "float_round ienv 0 = 0" and "float_round ienv 1 = 1"
  shows "map sr_relevance_score (vdb_search ienv vs query document_ids max_results)
           = map (\<lambda>hit. float_sub (float_round ienv) (Fin 1) (py_min (snd hit) (Fin 1))) hits
       \<and> (\<forall>d. relevance_of_distance ienv (Fin d) = Fin (float_round ienv (1 - min d 1)))
       \<and> map sr_metadata (vdb_search ienv vs query document_ids max_results)
           = map (\<lambda>hit. metadata (fst hit)) hits
       \<and> map sr_extracted_answer (vdb_search ienv vs query document_ids max_results)
           = map (\<lambda>hit. page_content (fst hit)) hits
       \<and> (\<forall>r \<in> set (vdb_search ienv vs query document_ids max_results).
             float_le (Fin 0) (sr_relevance_score r) \<and> float_le (sr_relevance_score r) (Fin 1))
       \<and> (\<forall>d1 d2. float_le (Fin 0) d1 \<and> float_le d1 d2
             \<longrightarrow> float_le (relevance_of_distance ienv d2) (relevance_of_distance ienv d1))"
proof -
  have s: "vdb_search ienv vs query document_ids max_results = map (format_result ienv) hits"
    using assms(1) by (simp add: vdb_search_def)
  have a: "map sr_relevance_score (map (format_result ienv) hits)
             = map (\<lambda>hit. float_sub (float_round ienv) (Fin 1) (py_min (snd hit) (Fin 1))) hits"
    by (simp add: format_result_def relevance_of_distance_def split_beta)
  have f: "\<forall>d. relevance_of_distance ienv (Fin d) = Fin (float_round ienv (1 - min d 1))"
    by (simp add: relevance_of_distance_Fin)
  have b: "map sr_metadata (map (format_result ienv) hits) = map (\<lambda>hit. metadata (fst hit)) hits"
    by (simp add: format_result_def split_beta)
  have c: "map sr_extracted_answer (map (format_result ienv) hits)
             = map (\<lambda>hit. page_content (fst hit)) hits"
    by (simp add: format_result_def split_beta)
  have d: "\<forall>r \<in> set (map (format_result ienv) hits).
             float_le (Fin 0) (sr_relevance_score r) \<and> float_le (sr_relevance_score r) (Fin 1)"
  proof
    fix r assume "r \<in> set (map (format_result ienv) hits)"
    then obtain hit where h: "hit \<in> set hits" and r: "r = format_result ienv hit" by auto
    from h assms(2) have "float_le (Fin 0) (snd hit)" by blast
    from relevance_of_distance_range [OF assms(3,4,5) this] r
    show "float_le (Fin 0) (sr_relevance_score r) \<and> float_le (sr_relevance_score r) (Fin 1)"
      by (simp add: format_result_def split_beta)
  qed
  have e: "\<forall>d1 d2. float_le (Fin 0) d1 \<and> float_le d1 d2
             \<longrightarrow> float_le (relevance_of_distance ienv d2) (relevance_of_distance ienv d1)"
    using relevance_of_distance_antimono [OF assms(3)] by blast
  show ?thesis
    unfolding s by (intro conjI a f b c d e)
qed

theorem search_relevance_scores_witness:
  "similarity_search_with_score example_index (vector_db two_document_vector) ''climate'' 10
     (filter_dict None)
     = Inr [(example_chunk ''d1'' ''d1_chunk_0'' 1, Fin (1 / 4)),
            (example_chunk ''d2'' ''d2_chunk_0'' 3, Fin (1 / 4))]
   \<and> mono (float_round example_index)
   \<and> map sr_relevance_score (vdb_search example_index two_document_vector ''climate'' None 10)
       = [Fin (3 / 4), Fin (3 / 4)]
   \<and> map sr_citation (vdb_search example_index two_document_vector ''climate'' None 10)
       = [''Page 1'', ''Page 3'']
   \<and> list_all (\<lambda>r. float_le (Fin 0) (sr_relevance_score r)
                   \<and> float_le (sr_relevance_score r) (Fin 1))
       (vdb_search example_index two_document_vector ''climate'' None 10)"
proof -
  let ?hits = "[(example_chunk ''d1'' ''d1_chunk_0'' 1, Fin (1 / 4)),
                (example_chunk ''d2'' ''d2_chunk_0'' 3, Fin (1 / 4))]"
  have h: "similarity_search_with_score example_index (vector_db two_document_vector)
             ''climate'' 10 (filter_dict None) = Inr ?hits"
    by (simp add: example_index_def two_document_vector_def stored_chunk_def)
  have pos: "\<forall>hit \<in> set ?hits. float_le (Fin 0) (snd hit)" by simp
  have m: "mono (float_round example_index)"
    by (simp add: example_index_def mono_def)
  have r: "float_round example_index 0 = 0" "float_round example_index 1 = 1"
    by (simp_all add: example_index_def)
  note t = search_relevance_scores [OF h pos m r]
  from t have "map sr_relevance_score
                 (vdb_search example_index two_document_vector ''climate'' None 10)
               = map (\<lambda>hit. float_sub (float_round example_index) (Fin 1)
                              (py_min (snd hit) (Fin 1))) ?hits"
    by (rule conjunct1)
  then have a: "map sr_relevance_score
                  (vdb_search example_index two_document_vector ''climate'' None 10)
                = [Fin (3 / 4), Fin (3 / 4)]"
    by (simp add: py_min_def example_index_def)
  have b: "map sr_citation (vdb_search example_index two_document_vector ''climate'' None 10)
             = [''Page 1'', ''Page 3'']"
    by (simp add: vdb_search_def h format_result_def example_chunk_def example_metadata_def
        get_default_def str_page_def str_int_def str_nat.simps digit_char_def)
  from t have "\<forall>r \<in> set (vdb_search example_index two_document_vector ''climate'' None 10).
             float_le (Fin 0) (sr_relevance_score r) \<and> float_le (sr_relevance_score r) (Fin 1)"
    by (elim conjE)
  then have c: "list_all (\<lambda>r. float_le (Fin 0) (sr_relevance_score r)
                   \<and> float_le (sr_relevance_score r) (Fin 1))
       (vdb_search example_index two_document_vector ''climate'' None 10)"
    by (simp only: list_all_iff)
  show ?thesis by (intro conjI h m a b c)
qed

subsection \<open>The pages of the chunks\<close>

text \<open>The page of a chunk: without a marker that parses it is the position
  estimate, which lies within the page count; a marker is taken as it stands
  (0 becomes 1).\<close>

lemma chunk_page_estimate:
  assumes "page_count document = Value pc" and "1 \<le> pc" and "i < n"
    and "find_page_info (split_char newline t) = None"
  shows "chunk_page document i n t = min (1 + (int i * pc) div int n) pc
       \<and> 1 \<le> chunk_page document i n t \<and> chunk_page document i n t \<le> pc"
proof -
  have "0 \<le> int i * pc" using assms(2) by simp
  moreover have "0 < int n" using assms(3) by simp
  ultimately have "0 \<le> (int i * pc) div int n"
    by (simp add: pos_imp_zdiv_nonneg_iff)
  then show ?thesis
    using assms by (simp add: chunk_page_def chunk_page_info_def min_def)
qed

lemma chunk_page_marker:
  assumes "find_page_info (split_char newline t) = Some v"
  shows "chunk_page document i n t = (if v = 0 then 1 else v)"
  using assms by (simp add: chunk_page_def chunk_page_info_def)

lemma langchain_docs_nth:
  assumes "i < length chunks"
  shows "langchain_docs document chunks ! i = langchain_doc document (length chunks) i (chunks ! i)"
  using assms by (simp add: langchain_docs_def nth_enumerate_eq)

lemma vdb_add_document_True:
  assumes "vdb_add_document ienv fs0 vs document = (True, vs')"
  shows "\<exists>dir content.
           processed_path document = Value dir
         \<and> files fs0 (os_path_join dir ''extracted_text.txt'') = Some content
         \<and> db_add_documents ienv (vector_db vs)
              (langchain_docs document (split_text ienv content)) = (None, vector_db vs')"
  using assms
  by (auto simp add: vdb_add_document_def Let_def
      split: if_splits entry.splits option.splits prod.splits)

text \<open>
  C2.  Let \<^verbatim>\<open>add_document\<close> succeed on a document whose page count \<open>pc\<close> is known
  and at least 1.  The chunks it hands to the index are the pieces of the
  splitter for the extracted text of the document, one chunk per piece and in
  their order, and the page stored with chunk \<open>i\<close> is: when no line of the chunk
  is a page marker that parses, the position estimate
  \<open>min(1 + i * pc div total, pc)\<close>, which lies in \<open>[1, pc]\<close>; when a marker
  parses to \<open>v\<close>, the number \<open>v\<close> itself (1 for \<open>v = 0\<close>), whatever the page
  count.
\<close>

theorem add_document_chunk_pages:
  assumes "vdb_add_document ienv fs0 vs document = (True, vs')"
    and "page_count document = Value pc" and "1 \<le> pc"
  shows "\<exists>dir content chunks docs.
           processed_path document = Value dir
         \<and> files fs0 (os_path_join dir ''extracted_text.txt'') = Some content
         \<and> chunks = split_text ienv content
         \<and> docs = langchain_docs document chunks
         \<and> db_add_documents ienv (vector_db vs) docs = (None, vector_db vs')
         \<and> length docs = length chunks
         \<and> (\<forall>i<length chunks.
              page_content (docs ! i) = chunks ! i
              \<and> md_document_id (metadata (docs ! i)) = Value (doc_id document)
              \<and> (case find_page_info (split_char newline (chunks ! i)) of
                   None \<Rightarrow>
                     md_page (metadata (docs ! i))
                       = Value (min (1 + (int i * pc) div int (length chunks)) pc)
                     \<and> 1 \<le> min (1 + (int i * pc) div int (length chunks)) pc
                     \<and> min (1 + (int i * pc) div int (length chunks)) pc \<le> pc
                 | Some v \<Rightarrow>
                     md_page (metadata (docs ! i)) = Value (if v = 0 then 1 else v)))"
proof -
  from vdb_add_document_True [OF assms(1)] obtain dir content where
    p: "processed_path document = Value dir" and
    f: "files fs0 (os_path_join dir ''extracted_text.txt'') = Some content" and
    a: "db_add_documents ienv (vector_db vs)
          (langchain_docs document (split_text ienv content)) = (None, vector_db vs')"
    by blast
  define chunks where "chunks = split_text ienv content"
  define docs where "docs = langchain_docs document chunks"
  have len: "length docs = length chunks"
    by (simp add: docs_def langchain_docs_def)
  have pages: "page_content (docs ! i) = chunks ! i
      \<and> md_document_id (metadata (docs ! i)) = Value (doc_id document)
      \<and> (case find_page_info (split_char newline (chunks ! i)) of
           None \<Rightarrow>
             md_page (metadata (docs ! i))
               = Value (min (1 + (int i * pc) div int (length chunks)) pc)
             \<and> 1 \<le> min (1 + (int i * pc) div int (length chunks)) pc
             \<and> min (1 + (int i * pc) div int (length chunks)) pc \<le> pc
         | Some v \<Rightarrow>
             md_page (metadata (docs ! i)) = Value (if v = 0 then 1 else v))"
    if i: "i < length chunks" for i
  proof -
    have d: "docs ! i = langchain_doc document (length chunks) i (chunks ! i)"
      unfolding docs_def using i by (rule langchain_docs_nth)
    have m: "md_page (metadata (docs ! i))
               = Value (chunk_page document i (length chunks) (chunks ! i))"
      by (simp add: d langchain_doc_def)
    have c: "page_content (docs ! i) = chunks ! i"
      and di: "md_document_id (metadata (docs ! i)) = Value (doc_id document)"
      by (simp_all add: d langchain_doc_def)
    show ?thesis
    proof (cases "find_page_info (split_char newline (chunks ! i))")
      case None
      note est = chunk_page_estimate [OF assms(2,3) i None]
      note e = est [THEN conjunct1]
        and lo = est [THEN conjunct2, THEN conjunct1]
        and hi = est [THEN conjunct2, THEN conjunct2]
      from lo hi have "1 \<le> min (1 + (int i * pc) div int (length chunks)) pc"
        and "min (1 + (int i * pc) div int (length chunks)) pc \<le> pc"
        unfolding e by this+
      moreover from m have "md_page (metadata (docs ! i))
          = Value (min (1 + (int i * pc) div int (length chunks)) pc)"
        unfolding e .
      ultimately show ?thesis
        using c di by (simp only: None option.case simp_thms)
    next
      case (Some v)
      from chunk_page_marker [OF Some] m c di Some show ?thesis by simp
    qed
  qed
  from a have a': "db_add_documents ienv (vector_db vs) docs = (None, vector_db vs')"
    by (simp add: docs_def chunks_def)
  from pages have all: "\<forall>i<length chunks.
              page_content (docs ! i) = chunks ! i
              \<and> md_document_id (metadata (docs ! i)) = Value (doc_id document)
              \<and> (case find_page_info (split_char newline (chunks ! i)) of
                   None \<Rightarrow>
                     md_page (metadata (docs ! i))
                       = Value (min (1 + (int i * pc) div int (length chunks)) pc)
                     \<and> 1 \<le> min (1 + (int i * pc) div int (length chunks)) pc
                     \<and> min (1 + (int i * pc) div int (length chunks)) pc \<le> pc
                 | Some v \<Rightarrow>
                     md_page (metadata (docs ! i)) = Value (if v = 0 then 1 else v))"
    by blast
  show ?thesis
    by (intro exI [of _ dir] exI [of _ content] exI [of _ chunks] exI [of _ docs] conjI
        p f chunks_def docs_def a' len all)
qed

text \<open>A processed PDF of ten pages whose text the splitter cuts into four
  chunks without page markers: the chunks are stored with the pages 1, 3, 6
  and 8.\<close>

lemma ten_page_pages:
  "fst (vdb_add_document four_chunk_index ten_page_filesystem empty_vector ten_page_document)
   \<and> map (\<lambda>s. md_page (metadata (sc_document s)))
        (vector_db (snd (vdb_add_document four_chunk_index ten_page_filesystem empty_vector
           ten_page_document)))
       = [Value 1, Value 3, Value 6, Value 8]"
  by (simp add: ten_page_document_def ten_page_filesystem_def four_chunk_index_def
      example_index_def empty_vector_def vdb_defs uploaded_document_def string_defs
      enumerate_eq_zip upt_rec)

theorem add_document_chunk_pages_witness:
  "fst (vdb_add_document four_chunk_index ten_page_filesystem empty_vector ten_page_document)
   \<and> page_count ten_page_document = Value 10
   \<and> split_text four_chunk_index ''one two three four'' = [''one'', ''two'', ''three'', ''four'']
   \<and> map (\<lambda>s. md_page (metadata (sc_document s)))
        (vector_db (snd (vdb_add_document four_chunk_index ten_page_filesystem empty_vector
           ten_page_document)))
       = [Value 1, Value 3, Value 6, Value 8]
   \<and> map (\<lambda>i. min (1 + (int i * 10) div 4) 10) [0, 1, 2, 3] = [1, 3, 6, 8]"
proof -
  let ?run = "vdb_add_document four_chunk_index ten_page_filesystem empty_vector
                ten_page_document"
  have added: "?run = (True, snd ?run)"
    using ten_page_pages by (simp add: prod_eq_iff)
  have pc: "page_count ten_page_document = Value 10"
    by (simp add: ten_page_document_def)
  have pos: "(1::int) \<le> 10" by simp
  from add_document_chunk_pages [OF added pc pos]
  obtain dir content where "processed_path ten_page_document = Value dir"
    and "files ten_page_filesystem (os_path_join dir ''extracted_text.txt'') = Some content"
    by (elim exE conjE)
  have s: "split_text four_chunk_index ''one two three four''
             = [''one'', ''two'', ''three'', ''four'']"
    by (simp add: four_chunk_index_def)
  have e: "map (\<lambda>i. min (1 + (int i * 10) div 4) 10) [0, 1, 2, 3] = [1, 3, 6, 8]"
    by simp
  from ten_page_pages have a: "fst ?run"
    and b: "map (\<lambda>s. md_page (metadata (sc_document s))) (vector_db (snd ?run))
       = [Value 1, Value 3, Value 6, Value 8]"
    by simp_all
  show ?thesis by (intro conjI a pc s b e)
qed

text \<open>A text document of one estimated page whose text holds the line
  \<^verbatim>\<open>--- Page 7 ---\<close>: it is processed, and its only chunk is stored with page 7.\<close>

lemma marker_processed:
  "processed_with marker_text_tools ''d4''
     = uploaded_document ''d4'' ''txt''
         \<lparr>status := Value ''processed'', page_count := Value 1,
          processed_path := Value ''/data/processed/d4'',
          processed_time := Value ''2025-05-16T14:00:00'', text_length := Value 20\<rparr>"
  by (simp add: processed_with_def marker_text_tools_def processing_defs example_defs string_defs)

lemma marker_filesystem:
  "files (filesystem_with marker_text_tools ''d4'') ''/data/processed/d4/extracted_text.txt''
     = Some (''--- Page 7 ---'' @ [newline] @ ''hello'')"
  by (simp add: filesystem_with_def marker_text_tools_def processing_defs example_defs string_defs)

theorem add_document_marker_page_above_page_count:
  "status (processed_with marker_text_tools ''d4'') = Value ''processed''
   \<and> page_count (processed_with marker_text_tools ''d4'') = Value 1
   \<and> fst (vdb_add_document example_index (filesystem_with marker_text_tools ''d4'') empty_vector
          (processed_with marker_text_tools ''d4''))
   \<and> map (\<lambda>s. md_page (metadata (sc_document s)))
        (vector_db (snd (vdb_add_document example_index
           (filesystem_with marker_text_tools ''d4'') empty_vector
           (processed_with marker_text_tools ''d4'')))) = [Value 7]"
  by (simp add: marker_processed marker_filesystem vdb_defs uploaded_document_def
      example_index_def empty_vector_def string_defs)

subsection \<open>The public delete and the vector store\<close>

text \<open>What a successful \<^verbatim>\<open>DocumentProcessor.delete_document\<close> has done.\<close>

lemma delete_document_True:
  assumes "delete_document st document_id = (True, st')"
    and "get_document st document_id = Some document"
  shows "\<exists>fs1 fs2.
           delete_path os_remove (fs st) (file_path document) = Some fs1
         \<and> delete_path shutil_rmtree fs1 (processed_path document) = Some fs2
         \<and> st' = \<lparr>documents = AList.delete document_id (documents st), fs = fs2\<rparr>"
  using assms
  by (auto simp add: delete_document_def get_document_def split: option.splits)

lemma delete_path_os_remove:
  assumes "delete_path os_remove fs0 p = Some fs1"
  shows "dirs fs1 = dirs fs0 \<and> (\<forall>q. p = Value q \<longrightarrow> files fs1 q = None)"
  using assms
  by (auto simp add: delete_path_def os_remove_def os_path_exists_def domIff
      split: entry.splits if_splits)

lemma delete_path_shutil_rmtree:
  assumes "delete_path shutil_rmtree fs1 p = Some fs2"
  shows "(\<forall>x. files fs1 x = None \<longrightarrow> files fs2 x = None)
       \<and> (\<forall>d. p = Value d \<longrightarrow>
              d \<notin> dirs fs2
            \<and> (d \<in> dirs fs1 \<longrightarrow> (\<forall>x. below d x \<longrightarrow> files fs2 x = None)))"
  using assms
  by (auto simp add: delete_path_def shutil_rmtree_def os_path_exists_def below_def
      split: entry.splits if_splits)

lemma api_delete_document_vector:
  "vector (snd (api_delete_document sys document_id)) = vector sys"
  by (simp add: api_delete_document_def split: prod.splits)

lemma api_delete_document_Inr:
  assumes "fst (api_delete_document sys document_id) = Inr msg"
  shows "delete_document (processor sys) document_id
           = (True, processor (snd (api_delete_document sys document_id)))"
  using assms
  by (auto simp add: api_delete_document_def split: prod.splits if_splits)

text \<open>
  C4.  For every stored document, a successful delete through the public
  delete operation (the documents endpoint, which calls
  \<^verbatim>\<open>DocumentProcessor.delete_document\<close> and nothing else) removes the document
  from the registry, removes its uploaded file and removes its processed
  directory with the files below it.  The vector database service is left as
  it was, the index and the record of chunk ids alike: every chunk of the
  document that the index holds stays there, and every later search answers
  as it would have answered before the delete.
\<close>

theorem api_delete_document_registry_and_files:
  assumes "get_document (processor sys) document_id = Some document"
    and "fst (api_delete_document sys document_id) = Inr msg"
  shows "get_document (processor (snd (api_delete_document sys document_id))) document_id = None
       \<and> (\<forall>q. file_path document = Value q
             \<longrightarrow> files (fs (processor (snd (api_delete_document sys document_id)))) q = None)
       \<and> (\<forall>d. processed_path document = Value d
             \<longrightarrow> d \<notin> dirs (fs (processor (snd (api_delete_document sys document_id))))
               \<and> (d \<in> dirs (fs (processor sys))
                    \<longrightarrow> (\<forall>x. below d x
                          \<longrightarrow> files (fs (processor (snd (api_delete_document sys document_id))))
                                x = None)))
       \<and> vector (snd (api_delete_document sys document_id)) = vector sys
       \<and> (\<forall>ienv query document_ids max_results.
             vdb_search ienv (vector (snd (api_delete_document sys document_id)))
               query document_ids max_results
             = vdb_search ienv (vector sys) query document_ids max_results)"
proof -
  let ?sys' = "snd (api_delete_document sys document_id)"
  from delete_document_True [OF api_delete_document_Inr [OF assms(2)] assms(1)]
  obtain fs1 fs2 where
    r: "delete_path os_remove (fs (processor sys)) (file_path document) = Some fs1" and
    t: "delete_path shutil_rmtree fs1 (processed_path document) = Some fs2" and
    p: "processor ?sys'
          = \<lparr>documents = AList.delete document_id (documents (processor sys)), fs = fs2\<rparr>"
    by blast
  note r1 = delete_path_os_remove [OF r] and t1 = delete_path_shutil_rmtree [OF t]
  have a: "get_document (processor ?sys') document_id = None"
    by (simp add: p get_document_def delete_conv)
  have b: "\<forall>q. file_path document = Value q \<longrightarrow> files (fs (processor ?sys')) q = None"
    using r1 t1 by (simp add: p)
  have c: "\<forall>d. processed_path document = Value d
             \<longrightarrow> d \<notin> dirs (fs (processor ?sys'))
               \<and> (d \<in> dirs (fs (processor sys))
                    \<longrightarrow> (\<forall>x. below d x \<longrightarrow> files (fs (processor ?sys')) x = None))"
    using r1 t1 by (simp add: p)
  have d: "vector ?sys' = vector sys"
    by (rule api_delete_document_vector)
  have e: "\<forall>ienv query document_ids max_results.
             vdb_search ienv (vector ?sys') query document_ids max_results
             = vdb_search ienv (vector sys) query document_ids max_results"
    by (simp add: d)
  show ?thesis by (intro conjI a b c d e)
qed

text \<open>A processed document with two chunks in the index, one of them its own:
  the public delete removes the document, its file and its directory, and a
  later search still finds both chunks.\<close>

theorem api_delete_document_registry_and_files_witness:
  "get_document (processor two_chunk_system) ''d1'' \<noteq> None
   \<and> fst (api_delete_document two_chunk_system ''d1'') = Inr ''Document deleted successfully''
   \<and> get_document (processor (snd (api_delete_document two_chunk_system ''d1''))) ''d1'' = None
   \<and> files (fs (processor (snd (api_delete_document two_chunk_system ''d1''))))
       ''/data/uploads/d1.txt'' = None
   \<and> files (fs (processor (snd (api_delete_document two_chunk_system ''d1''))))
       ''/data/processed/d1/extracted_text.txt'' = None
   \<and> vector (snd (api_delete_document two_chunk_system ''d1'')) = two_document_vector
   \<and> map sr_document_id
       (vdb_search example_index (vector (snd (api_delete_document two_chunk_system ''d1'')))
          ''climate'' None 10) = [Value ''d1'', Value ''d2'']"
proof -
  let ?doc = "uploaded_document ''d1'' ''txt''
                \<lparr>status := Value ''processed'', page_count := Value 1,
                 processed_path := Value ''/data/processed/d1''\<rparr>"
  have g: "get_document (processor two_chunk_system) ''d1'' = Some ?doc"
    by (simp add: two_chunk_system_def example_state_def get_document_def)
  have ok: "fst (api_delete_document two_chunk_system ''d1'')
              = Inr ''Document deleted successfully''"
    by (simp add: api_delete_document_def two_chunk_system_def delete_document_def
        delete_path_def os_remove_def shutil_rmtree_def os_path_exists_def example_defs)
  note t = api_delete_document_registry_and_files [OF g ok]
  have fp: "file_path ?doc = Value ''/data/uploads/d1.txt''"
    and pp: "processed_path ?doc = Value ''/data/processed/d1''"
    by (simp_all add: uploaded_document_def)
  have dir: "''/data/processed/d1'' \<in> dirs (fs (processor two_chunk_system))"
    by (simp add: two_chunk_system_def example_state_def)
  have bel: "below ''/data/processed/d1'' ''/data/processed/d1/extracted_text.txt''"
    by (simp add: below_def startswith_def)
  from g have a: "get_document (processor two_chunk_system) ''d1'' \<noteq> None" by simp
  from t have b: "get_document (processor (snd (api_delete_document two_chunk_system ''d1'')))
                    ''d1'' = None"
    by (rule conjunct1)
  from t fp have c: "files (fs (processor (snd (api_delete_document two_chunk_system ''d1''))))
       ''/data/uploads/d1.txt'' = None"
    by blast
  from t pp dir bel
  have d: "files (fs (processor (snd (api_delete_document two_chunk_system ''d1''))))
       ''/data/processed/d1/extracted_text.txt'' = None"
    by blast
  from t have "vector (snd (api_delete_document two_chunk_system ''d1''))
                 = vector two_chunk_system"
    by (elim conjE)
  then have e: "vector (snd (api_delete_document two_chunk_system ''d1'')) = two_document_vector"
    by (simp add: two_chunk_system_def)
  have f: "map sr_document_id
       (vdb_search example_index (vector (snd (api_delete_document two_chunk_system ''d1'')))
          ''climate'' None 10) = [Value ''d1'', Value ''d2'']"
    unfolding e
    by (simp add: vdb_search_def example_index_def two_document_vector_def stored_chunk_def
        format_result_def example_chunk_def example_metadata_def get_default_def
        filter_dict_def)
  show ?thesis by (intro conjI a ok b c d e f)
qed

text \<open>The public delete of a stored document succeeds and removes it from the
  registry, yet its chunk stays in the index and a later search returns it.\<close>

theorem api_delete_document_keeps_chunks:
  "fst (api_delete_document example_system ''d1'') = Inr ''Document deleted successfully''
   \<and> get_document (processor (snd (api_delete_document example_system ''d1''))) ''d1'' = None
   \<and> map (\<lambda>s. md_document_id (metadata (sc_document s)))
        (vector_db (vector (snd (api_delete_document example_system ''d1'')))) = [Value ''d1'']
   \<and> map sr_document_id
        (vdb_search example_index (vector (snd (api_delete_document example_system ''d1'')))
           ''climate'' None 10) = [Value ''d1'']"
  by (simp add: api_delete_document_def example_system_def get_document_def delete_document_def
      delete_path_def os_remove_def shutil_rmtree_def example_defs example_vector_def
      example_chunk_def example_metadata_def example_index_def vdb_defs)

text \<open>\<^verbatim>\<open>VectorDatabaseService.delete_document\<close> itself, which no public operation
  calls: when the index library raises on the first chunk, the method
  answers \<^verbatim>\<open>False\<close> and keeps the record of the document; it answers \<^verbatim>\<open>True\<close>
  only after the library has taken every recorded chunk id without raising.\<close>

lemma vdb_delete_document_raises:
  assumes "map_of (chunk_metadata vs) document_id = Some (c # cs)"
    and "db_delete ienv (vector_db vs) c = (Some e, store)"
  shows "vdb_delete_document ienv vs document_id = (False, vs\<lparr>vector_db := store\<rparr>)"
  using assms by (simp add: vdb_delete_document_def)

lemma vdb_delete_document_True:
  assumes "vdb_delete_document ienv vs document_id = (True, vs')"
  shows "\<exists>chunk_ids. map_of (chunk_metadata vs) document_id = Some chunk_ids
           \<and> delete_chunks ienv (vector_db vs) chunk_ids = (None, vector_db vs')
           \<and> chunk_metadata vs' = AList.delete document_id (chunk_metadata vs)"
  using assms
  by (auto simp add: vdb_delete_document_def split: option.splits if_splits prod.splits)

section \<open>Properties of the enhanced citation service\<close>

subsection \<open>The stored segmentation\<close>

text \<open>Both splitting functions strip their pieces and drop the blank ones, so the
  second filter of \<^verbatim>\<open>process_document\<close> (\<^verbatim>\<open>if not paragraph.strip(): continue\<close>) drops
  nothing and the stored index holds every paragraph and every sentence.\<close>

lemma strip_strip: "strip (strip s) = strip s"
proof -
  define t where "t = dropWhile is_space s"
  define u where "u = rev (dropWhile is_space (rev t))"
  have su: "strip s = u" by (simp add: strip_def lstrip_def rstrip_def t_def u_def)
  have pre: "u = take (length u) t"
  proof -
    have "rev t = takeWhile is_space (rev t) @ dropWhile is_space (rev t)" by simp
    then have "t = rev (dropWhile is_space (rev t)) @ rev (takeWhile is_space (rev t))"
      by (metis rev_append rev_rev_ident)
    then have "t = u @ rev (takeWhile is_space (rev t))" by (simp add: u_def)
    then show ?thesis by (metis append_eq_conv_conj)
  qed
  have l: "dropWhile is_space u = u"
  proof (cases u)
    case Nil
    then show ?thesis by simp
  next
    case (Cons a as)
    with pre have "t \<noteq> []" by auto
    then have "\<not> is_space (hd t)" unfolding t_def by (rule hd_dropWhile)
    moreover from Cons pre have "hd u = hd t" by (metis hd_take list.distinct(1) take_eq_Nil length_greater_0_conv)
    ultimately show ?thesis using Cons by simp
  qed
  have r: "rev (dropWhile is_space (rev u)) = u"
    by (simp add: u_def)
  show ?thesis
    unfolding su by (simp add: strip_def lstrip_def rstrip_def l r)
qed

lemma split_into_paragraphs_nonblank:
  "p \<in> set (split_into_paragraphs text) \<Longrightarrow> strip p \<noteq> []"
  by (auto simp add: split_into_paragraphs_def strip_strip)

lemma split_into_sentences_nonblank:
  "s \<in> set (split_into_sentences paragraph) \<Longrightarrow> strip s \<noteq> []"
  by (auto simp add: split_into_sentences_def strip_strip)

lemma filter_enumerate_nonblank:
  assumes "\<forall>x \<in> set xs. strip x \<noteq> []"
  shows "filter (\<lambda>(i, x). strip x \<noteq> []) (enumerate 0 xs) = enumerate 0 xs"
proof -
  have "\<forall>ix \<in> set (enumerate 0 xs). (\<lambda>(i, x). strip x \<noteq> []) ix"
    using assms by (auto simp add: in_set_enumerate_eq)
  then show ?thesis by (simp only: filter_True)
qed

lemma sentence_entries_texts:
  "map (\<lambda>(j, s). s_text s) (sentence_entries (split_into_sentences paragraph))
     = split_into_sentences paragraph"
proof -
  have f: "filter (\<lambda>(j, sentence). strip sentence \<noteq> [])
             (enumerate 0 (split_into_sentences paragraph))
           = enumerate 0 (split_into_sentences paragraph)"
    by (rule filter_enumerate_nonblank) (simp add: split_into_sentences_nonblank)
  have "map (\<lambda>(j, s). s_text s) (sentence_entries (split_into_sentences paragraph))
          = map snd (enumerate 0 (split_into_sentences paragraph))"
    unfolding sentence_entries_def f by (simp add: split_beta comp_def)
  then show ?thesis by simp
qed

lemma paragraph_entry_segment:
  assumes "paragraph_entry document n ip = Some e"
  shows "(\<lambda>(i, p). (p_text p, map (\<lambda>(j, s). s_text s) (p_sentences p))) e
           = (snd ip, split_into_sentences (snd ip))"
  using assms
  by (cases ip)
     (auto simp add: paragraph_entry_def Let_def sentence_entries_texts split: option.splits)

lemma paragraph_entries_segmentation:
  assumes "paragraph_entries document (split_into_paragraphs text) = Some entries"
  shows "map (\<lambda>(i, p). (p_text p, map (\<lambda>(j, s). s_text s) (p_sentences p))) entries
           = text_segmentation text"
proof -
  let ?ps = "split_into_paragraphs text"
  let ?g = "paragraph_entry document (length ?ps)"
  let ?f = "\<lambda>(i, p). (p_text p, map (\<lambda>(j, s). s_text s) (p_sentences p))"
  have f: "filter (\<lambda>(i, paragraph). strip paragraph \<noteq> []) (enumerate 0 ?ps) = enumerate 0 ?ps"
    by (rule filter_enumerate_nonblank) (simp add: split_into_paragraphs_nonblank)
  from assms have none: "None \<notin> set (map ?g (enumerate 0 ?ps))"
    and e: "entries = map the (map ?g (enumerate 0 ?ps))"
    unfolding paragraph_entries_def f Let_def by (auto split: if_splits)
  have "?f (the (?g ip)) = (snd ip, split_into_sentences (snd ip))"
    if "ip \<in> set (enumerate 0 ?ps)" for ip
  proof -
    from that none obtain en where "?g ip = Some en"
      by (cases "?g ip") force+
    with paragraph_entry_segment [of document "length ?ps" ip en] show ?thesis by simp
  qed
  then have "map ?f entries = map (\<lambda>ip. (snd ip, split_into_sentences (snd ip))) (enumerate 0 ?ps)"
    unfolding e by simp
  also have "\<dots> = map (\<lambda>p. (p, split_into_sentences p)) (map snd (enumerate 0 ?ps))"
    by (simp only: map_map comp_def)
  also have "\<dots> = text_segmentation text"
    by (simp only: map_snd_enumerate text_segmentation_def)
  finally show ?thesis .
qed

lemma citation_process_document_True:
  assumes "citation_process_document fs0 cm document = (True, cm')"
    and "processed_path document = Value dir"
    and "files fs0 (os_path_join dir ''extracted_text.txt'') = Some text"
  shows "\<exists>cd. map_of cm' (doc_id document) = Some cd
           \<and> stored_segmentation cd = text_segmentation text
           \<and> cm' = AList.update (doc_id document) cd cm"
proof -
  from assms obtain entries where
    pe: "paragraph_entries document (split_into_paragraphs text) = Some entries" and
    cm': "cm' = AList.update (doc_id document)
             \<lparr>cd_document_id = doc_id document,
              cd_document_title = get_default (title document) [],
              cd_paragraph_count = length (split_into_paragraphs text),
              cd_paragraphs = entries\<rparr> cm"
    by (auto simp add: citation_process_document_def Let_def split: if_splits option.splits)
  from paragraph_entries_segmentation [OF pe] cm' show ?thesis
    by (simp add: stored_segmentation_def update_conv)
qed

text \<open>
  C9.  The segmentation of the citation index is a function of the input text
  alone.  Whenever \<^verbatim>\<open>process_document\<close> of the citation service succeeds on two
  documents whose extracted text is the same, whatever the documents, the
  file systems and the citation metadata held before, the two stored indexes
  have the same list of paragraphs and, paragraph by paragraph, the same list
  of sentences: namely the lists that \<^verbatim>\<open>_split_into_paragraphs\<close> and
  \<^verbatim>\<open>_split_into_sentences\<close> give for that text.  Processing the first document
  once more leaves the citation metadata as it is.
\<close>

theorem citation_segmentation_deterministic:
  assumes "citation_process_document fs1 cm1 document1 = (True, cm1')"
    and "citation_process_document fs2 cm2 document2 = (True, cm2')"
    and "processed_path document1 = Value dir1"
    and "processed_path document2 = Value dir2"
    and "files fs1 (os_path_join dir1 ''extracted_text.txt'') = Some text"
    and "files fs2 (os_path_join dir2 ''extracted_text.txt'') = Some text"
  shows "map_option stored_segmentation (map_of cm1' (doc_id document1))
           = map_option stored_segmentation (map_of cm2' (doc_id document2))
       \<and> map_option stored_segmentation (map_of cm1' (doc_id document1))
           = Some (text_segmentation text)
       \<and> citation_process_document fs1 cm1' document1 = (True, cm1')"
proof -
  from citation_process_document_True [OF assms(1,3,5)] obtain cd1 where
    1: "map_of cm1' (doc_id document1) = Some cd1"
       "stored_segmentation cd1 = text_segmentation text"
       "cm1' = AList.update (doc_id document1) cd1 cm1"
    by blast
  from citation_process_document_True [OF assms(2,4,6)] obtain cd2 where
    2: "map_of cm2' (doc_id document2) = Some cd2"
       "stored_segmentation cd2 = text_segmentation text"
    by blast
  have again: "citation_process_document fs1 cm1' document1 = (True, cm1')"
  proof -
    from assms(1,3,5) have "citation_process_document fs1 cm1' document1
        = (True, AList.update (doc_id document1) cd1 cm1')"
      using 1(3)
      by (auto simp add: citation_process_document_def Let_def update_conv
          split: if_splits option.splits)
    then show ?thesis by (simp add: 1(3))
  qed
  from 1 2 again show ?thesis by simp
qed

text \<open>Two text documents with the same content, processed by the document
  processor and then indexed one after the other.\<close>

lemma climate_processed:
  "processed_with climate_text_tools ''d6''
     = uploaded_document ''d6'' ''txt''
         \<lparr>status := Value ''processed'', page_count := Value 1,
          processed_path := Value ''/data/processed/d6'',
          processed_time := Value ''2025-05-16T14:00:00'', text_length := Value 35\<rparr>"
  by (simp add: processed_with_def climate_text_tools_def climate_text_def processing_defs
      example_defs string_defs)

lemma climate_filesystem:
  "files (filesystem_with climate_text_tools ''d6'') ''/data/processed/d6/extracted_text.txt''
     = Some climate_text"
  by (simp add: filesystem_with_def climate_text_tools_def processing_defs example_defs string_defs)

lemma climate_paragraphs: "split_into_paragraphs climate_text = [climate_text]"
  by (simp add: climate_text_def segmentation_defs string_defs)

lemma climate_sentences:
  "split_into_sentences climate_text = [''Climate change is real.'', ''It is warm.'']"
  by (simp add: climate_text_def segmentation_defs string_defs)

lemma climate_processed_d7:
  "processed_with climate_text_tools ''d7''
     = uploaded_document ''d7'' ''txt''
         \<lparr>status := Value ''processed'', page_count := Value 1,
          processed_path := Value ''/data/processed/d7'',
          processed_time := Value ''2025-05-16T14:00:00'', text_length := Value 35\<rparr>"
  by (simp add: processed_with_def climate_text_tools_def climate_text_def processing_defs
      example_defs string_defs)

lemma climate_filesystem_d7:
  "files (filesystem_with climate_text_tools ''d7'') ''/data/processed/d7/extracted_text.txt''
     = Some climate_text"
  by (simp add: filesystem_with_def climate_text_tools_def processing_defs example_defs string_defs)

lemma climate_entries:
  "paragraph_entries document [climate_text]
     = Some [(0, \<lparr>p_index = 0, p_page = 1, p_text = climate_text, p_sentence_count = 2,
                  p_sentences = [(0, \<lparr>s_index = 0, s_text = ''Climate change is real.''\<rparr>),
                                 (1, \<lparr>s_index = 1, s_text = ''It is warm.''\<rparr>)]\<rparr>)]"
proof -
  have m: "search_marker climate_text = None"
    by (simp add: climate_text_def match_marker_def startswith_def)
  have p: "paragraph_page document 0 (Suc 0) climate_text = Some 1"
    by (cases "page_count document")
       (simp_all add: paragraph_page_def extract_page_number_def m get_default_def
         estimate_page_number_def)
  have s: "strip climate_text \<noteq> []"
    by (simp add: climate_text_def strip_def lstrip_def rstrip_def is_space_def)
  have e: "sentence_entries [''Climate change is real.'', ''It is warm.'']
             = [(0, \<lparr>s_index = 0, s_text = ''Climate change is real.''\<rparr>),
                (1, \<lparr>s_index = 1, s_text = ''It is warm.''\<rparr>)]"
    by (simp add: sentence_entries_def enumerate_eq_zip upt_rec strip_def lstrip_def rstrip_def
        is_space_def)
  show ?thesis
    by (simp add: paragraph_entries_def paragraph_entry_def s p e climate_sentences Let_def)
qed

lemma climate_run:
  assumes "status document = Value ''processed''"
    and "processed_path document = Value dir"
    and "files fs0 (os_path_join dir ''extracted_text.txt'') = Some climate_text"
  shows "fst (citation_process_document fs0 cm document)"
  using assms
  by (simp add: citation_process_document_def os_path_exists_def domIff climate_paragraphs
      climate_entries)

lemma climate_index_d6:
  "citation_process_document (filesystem_with climate_text_tools ''d6'') []
     (processed_with climate_text_tools ''d6'')
   = (True, citation_index_of ''d6'')"
proof -
  have "fst (citation_process_document (filesystem_with climate_text_tools ''d6'') []
               (processed_with climate_text_tools ''d6''))"
    by (rule climate_run [of _ "''/data/processed/d6''"])
       (simp_all add: climate_processed climate_filesystem os_path_join_def endswith_def
         startswith_def)
  then show ?thesis by (simp add: citation_index_of_def prod_eq_iff)
qed

lemma climate_index_d7:
  "fst (citation_process_document (filesystem_with climate_text_tools ''d7'')
          (citation_index_of ''d6'') (processed_with climate_text_tools ''d7''))"
  by (rule climate_run [of _ "''/data/processed/d7''"])
     (simp_all add: climate_processed_d7 climate_filesystem_d7 os_path_join_def endswith_def
       startswith_def)

theorem citation_segmentation_deterministic_witness:
  "fst (citation_process_document (filesystem_with climate_text_tools ''d6'') []
          (processed_with climate_text_tools ''d6''))
   \<and> fst (citation_process_document (filesystem_with climate_text_tools ''d7'')
            (citation_index_of ''d6'') (processed_with climate_text_tools ''d7''))
   \<and> map_option stored_segmentation (map_of (citation_index_of ''d6'') ''d6'')
       = Some [(''Climate change is real. It is warm.'',
                [''Climate change is real.'', ''It is warm.''])]
   \<and> map_option stored_segmentation
         (map_of (snd (citation_process_document (filesystem_with climate_text_tools ''d7'')
                         (citation_index_of ''d6'') (processed_with climate_text_tools ''d7'')))
            ''d7'')
       = Some [(''Climate change is real. It is warm.'',
                [''Climate change is real.'', ''It is warm.''])]
   \<and> citation_process_document (filesystem_with climate_text_tools ''d6'')
         (citation_index_of ''d6'') (processed_with climate_text_tools ''d6'')
       = (True, citation_index_of ''d6'')"
proof -
  let ?run2 = "citation_process_document (filesystem_with climate_text_tools ''d7'')
                 (citation_index_of ''d6'') (processed_with climate_text_tools ''d7'')"
  have r1: "citation_process_document (filesystem_with climate_text_tools ''d6'') []
              (processed_with climate_text_tools ''d6'') = (True, citation_index_of ''d6'')"
    by (rule climate_index_d6)
  have r2: "?run2 = (True, snd ?run2)"
    using climate_index_d7 by (simp add: prod_eq_iff)
  have p1: "processed_path (processed_with climate_text_tools ''d6'') = Value ''/data/processed/d6''"
    by (simp add: climate_processed)
  have p2: "processed_path (processed_with climate_text_tools ''d7'') = Value ''/data/processed/d7''"
    by (simp add: climate_processed_d7)
  have f1: "files (filesystem_with climate_text_tools ''d6'')
              (os_path_join ''/data/processed/d6'' ''extracted_text.txt'') = Some climate_text"
    using climate_filesystem by (simp add: os_path_join_def endswith_def startswith_def)
  have f2: "files (filesystem_with climate_text_tools ''d7'')
              (os_path_join ''/data/processed/d7'' ''extracted_text.txt'') = Some climate_text"
    using climate_filesystem_d7 by (simp add: os_path_join_def endswith_def startswith_def)
  have d1: "doc_id (processed_with climate_text_tools ''d6'') = ''d6''"
    by (simp add: climate_processed uploaded_document_def)
  have d2: "doc_id (processed_with climate_text_tools ''d7'') = ''d7''"
    by (simp add: climate_processed_d7 uploaded_document_def)
  have seg: "text_segmentation climate_text
               = [(''Climate change is real. It is warm.'',
                   [''Climate change is real.'', ''It is warm.''])]"
    using climate_sentences by (simp add: text_segmentation_def climate_paragraphs) (simp add: climate_text_def)
  note main = citation_segmentation_deterministic [OF r1 r2 p1 p2 f1 f2, unfolded d1 d2 seg]
  from main have a: "map_option stored_segmentation (map_of (citation_index_of ''d6'') ''d6'')
      = Some [(''Climate change is real. It is warm.'',
               [''Climate change is real.'', ''It is warm.''])]"
    by (rule conjunct1 [OF conjunct2])
  from main a have b: "map_option stored_segmentation (map_of (snd ?run2) ''d7'')
      = Some [(''Climate change is real. It is warm.'',
               [''Climate change is real.'', ''It is warm.''])]"
    by simp
  from main have c: "citation_process_document (filesystem_with climate_text_tools ''d6'')
         (citation_index_of ''d6'') (processed_with climate_text_tools ''d6'')
       = (True, citation_index_of ''d6'')"
    by (rule conjunct2 [OF conjunct2])
  from r1 have r1': "fst (citation_process_document (filesystem_with climate_text_tools ''d6'') []
          (processed_with climate_text_tools ''d6''))" by simp
  show ?thesis
    by (intro conjI r1' climate_index_d7 a b c)
qed

subsection \<open>The pages of the paragraphs\<close>

text \<open>What a successful run of \<^verbatim>\<open>process_document\<close> stores, and the page it
  stores with each paragraph.\<close>

lemma citation_process_document_entries:
  assumes "citation_process_document fs0 cm document = (True, cm')"
  shows "\<exists>content entries.
           paragraph_entries document (split_into_paragraphs content) = Some entries
         \<and> map_of cm' (doc_id document)
             = Some \<lparr>cd_document_id = doc_id document,
                     cd_document_title = get_default (title document) [],
                     cd_paragraph_count = length (split_into_paragraphs content),
                     cd_paragraphs = entries\<rparr>"
  using assms
  by (auto simp add: citation_process_document_def Let_def update_conv
      split: if_splits option.splits entry.splits)

lemma paragraph_entries_pages:
  assumes "paragraph_entries document ps = Some entries" and "(i, p) \<in> set entries"
  shows "i < length ps \<and> p_index p = i \<and> p_text p = ps ! i
       \<and> paragraph_page document i (length ps) (ps ! i) = Some (p_page p)"
proof -
  let ?g = "paragraph_entry document (length ps)"
  let ?candidates = "filter (\<lambda>(i, paragraph). strip paragraph \<noteq> []) (enumerate 0 ps)"
  from assms(1) have none: "None \<notin> set (map ?g ?candidates)"
    and e: "entries = map the (map ?g ?candidates)"
    unfolding paragraph_entries_def Let_def by (auto split: if_splits)
  from assms(2) e obtain ip where ip: "ip \<in> set ?candidates" and t: "(i, p) = the (?g ip)"
    by auto
  from ip have "?g ip \<in> set (map ?g ?candidates)" by simp
  with none have "?g ip \<noteq> None" by metis
  with t have g: "?g ip = Some (i, p)" by auto
  obtain k par where kp: "ip = (k, par)" by (cases ip)
  from ip kp have "k < length ps" and "par = ps ! k"
    by (auto simp add: in_set_enumerate_eq)
  with g kp show ?thesis
    by (auto simp add: paragraph_entry_def Let_def split: option.splits)
qed

lemma paragraph_page_estimate:
  assumes "search_marker paragraph = None"
    and "get_default (page_count document) 1 = Value total_pages"
  shows "paragraph_page document i n paragraph
           = Some (estimate_page_number (int i) (int n) total_pages)"
  using assms by (simp add: paragraph_page_def extract_page_number_def)

lemma estimate_page_number_formula:
  assumes "0 \<le> i" and "i < n" and "1 \<le> total_pages"
  shows "estimate_page_number i n total_pages
           = max 1 (min (1 + (i * total_pages) div n) total_pages)"
proof (cases "n \<le> 1")
  case True
  with assms have "i = 0" by simp
  with assms show ?thesis by (simp add: estimate_page_number_def)
next
  case False
  then have "estimate_page_number i n total_pages
               = min (1 + (i * total_pages) div n) total_pages"
    by (simp add: estimate_page_number_def)
  with estimate_page_number_lower [OF assms(1,3), of n] show ?thesis by simp
qed

text \<open>
  C7.  Let \<^verbatim>\<open>process_document\<close> of the citation service succeed on a document
  whose page count \<open>total_pages\<close> is at least 1.  Every stored paragraph without a
  page marker has as its page the estimate of \<^verbatim>\<open>_estimate_page_number\<close> for its
  index \<open>i\<close> and the number of paragraphs, which is
  \<open>1 + floor(i * total_pages / total_paragraphs)\<close> clamped to \<open>[1, total_pages]\<close>
  and lies in \<open>[1, total_pages]\<close>; of two stored paragraphs without a marker the
  later one never has the smaller page.  For every number of paragraphs and
  all indices \<open>0 \<le> i \<le> j\<close> the estimate lies in \<open>[1, total_pages]\<close> and the
  estimate at \<open>i\<close> is at most the estimate at \<open>j\<close>.
\<close>

theorem paragraph_pages_estimated:
  assumes "citation_process_document fs0 cm document = (True, cm')"
    and "get_default (page_count document) 1 = Value total_pages"
    and "1 \<le> total_pages"
  shows "\<exists>cd. map_of cm' (doc_id document) = Some cd
       \<and> (\<forall>(i, p) \<in> set (cd_paragraphs cd).
            search_marker (p_text p) = None \<longrightarrow>
              paragraph_page document i (cd_paragraph_count cd) (p_text p) = Some (p_page p)
            \<and> p_page p
                = estimate_page_number (int i) (int (cd_paragraph_count cd)) total_pages
            \<and> p_page p
                = max 1 (min (1 + (int i * total_pages) div int (cd_paragraph_count cd))
                           total_pages)
            \<and> 1 \<le> p_page p \<and> p_page p \<le> total_pages)
       \<and> (\<forall>(i, p) \<in> set (cd_paragraphs cd). \<forall>(j, q) \<in> set (cd_paragraphs cd).
            i \<le> j \<and> search_marker (p_text p) = None \<and> search_marker (p_text q) = None
              \<longrightarrow> p_page p \<le> p_page q)
       \<and> (\<forall>i j n. 0 \<le> i \<and> i \<le> j \<longrightarrow>
             1 \<le> estimate_page_number i n total_pages
           \<and> estimate_page_number i n total_pages \<le> total_pages
           \<and> estimate_page_number i n total_pages \<le> estimate_page_number j n total_pages)"
proof -
  from citation_process_document_entries [OF assms(1)] obtain content entries where
    pe: "paragraph_entries document (split_into_paragraphs content) = Some entries" and
    m: "map_of cm' (doc_id document)
          = Some \<lparr>cd_document_id = doc_id document,
                  cd_document_title = get_default (title document) [],
                  cd_paragraph_count = length (split_into_paragraphs content),
                  cd_paragraphs = entries\<rparr>"
    by blast
  let ?n = "length (split_into_paragraphs content)"
  let ?cd = "\<lparr>cd_document_id = doc_id document,
              cd_document_title = get_default (title document) [],
              cd_paragraph_count = ?n, cd_paragraphs = entries\<rparr>"
  have est: "paragraph_page document i ?n (p_text p) = Some (p_page p)
           \<and> p_page p = estimate_page_number (int i) (int ?n) total_pages
           \<and> p_page p = max 1 (min (1 + (int i * total_pages) div int ?n) total_pages)
           \<and> 1 \<le> p_page p \<and> p_page p \<le> total_pages"
    if "(i, p) \<in> set entries" and "search_marker (p_text p) = None" for i p
  proof -
    from paragraph_entries_pages [OF pe that(1)] have
      i: "i < ?n" and
      pp: "paragraph_page document i ?n (p_text p) = Some (p_page p)"
      by simp_all
    from pp paragraph_page_estimate [OF that(2) assms(2), of i ?n]
    have e: "p_page p = estimate_page_number (int i) (int ?n) total_pages" by simp
    from i have "int i < int ?n" by simp
    from estimate_page_number_formula [OF _ this assms(3)]
    have f: "estimate_page_number (int i) (int ?n) total_pages
               = max 1 (min (1 + (int i * total_pages) div int ?n) total_pages)"
      by simp
    from estimate_page_number_lower [OF _ assms(3), of "int i" "int ?n"]
      estimate_page_number_upper [OF assms(3), of "int i" "int ?n"]
    have "1 \<le> estimate_page_number (int i) (int ?n) total_pages
        \<and> estimate_page_number (int i) (int ?n) total_pages \<le> total_pages"
      by simp
    with pp e f show ?thesis by simp
  qed
  have mono: "p_page p \<le> p_page q"
    if "(i, p) \<in> set entries" and "(j, q) \<in> set entries" and "i \<le> j"
      and "search_marker (p_text p) = None" and "search_marker (p_text q) = None"
    for i p j q
  proof -
    from est [OF that(1,4)] est [OF that(2,5)]
    have "p_page p = estimate_page_number (int i) (int ?n) total_pages"
      and "p_page q = estimate_page_number (int j) (int ?n) total_pages"
      by simp_all
    moreover from that(3) assms(3)
    have "estimate_page_number (int i) (int ?n) total_pages
            \<le> estimate_page_number (int j) (int ?n) total_pages"
      by (intro estimate_page_number_mono) simp_all
    ultimately show ?thesis by simp
  qed
  have gen: "1 \<le> estimate_page_number i n total_pages
           \<and> estimate_page_number i n total_pages \<le> total_pages
           \<and> estimate_page_number i n total_pages \<le> estimate_page_number j n total_pages"
    if "0 \<le> i \<and> i \<le> j" for i j n
    using that assms(3)
    by (simp add: estimate_page_number_lower estimate_page_number_upper
        estimate_page_number_mono)
  have a: "\<forall>(i, p) \<in> set (cd_paragraphs ?cd).
            search_marker (p_text p) = None \<longrightarrow>
              paragraph_page document i (cd_paragraph_count ?cd) (p_text p) = Some (p_page p)
            \<and> p_page p
                = estimate_page_number (int i) (int (cd_paragraph_count ?cd)) total_pages
            \<and> p_page p
                = max 1 (min (1 + (int i * total_pages) div int (cd_paragraph_count ?cd))
                           total_pages)
            \<and> 1 \<le> p_page p \<and> p_page p \<le> total_pages"
    using est by auto
  have b: "\<forall>(i, p) \<in> set (cd_paragraphs ?cd). \<forall>(j, q) \<in> set (cd_paragraphs ?cd).
            i \<le> j \<and> search_marker (p_text p) = None \<and> search_marker (p_text q) = None
              \<longrightarrow> p_page p \<le> p_page q"
    using mono by auto
  have c: "\<forall>i j n. 0 \<le> i \<and> i \<le> j \<longrightarrow>
             1 \<le> estimate_page_number i n total_pages
           \<and> estimate_page_number i n total_pages \<le> total_pages
           \<and> estimate_page_number i n total_pages \<le> estimate_page_number j n total_pages"
    using gen by blast
  show ?thesis
    by (intro exI [of _ ?cd] conjI m a b c)
qed

text \<open>The scanned PDF of two pages: the document processor stores the text of
  the recognised pages with their markers, and the citation service splits it
  into eight paragraphs.\<close>

lemma scanned_processed:
  "scanned_document
     = uploaded_document ''d9'' ''pdf''
         \<lparr>status := Value ''processed'', page_count := Value 2,
          processed_path := Value ''/data/processed/d9'',
          processed_time := Value ''2025-05-16T14:00:00'', text_length := Value 52\<rparr>"
  by (simp add: scanned_document_def two_page_scan_tools_def processing_defs pdf_defs
      example_defs string_defs)

lemma scanned_file:
  "files scanned_filesystem (os_path_join ''/data/processed/d9'' ''extracted_text.txt'')
     = Some scanned_text"
  by (simp add: scanned_filesystem_def two_page_scan_tools_def processing_defs pdf_defs
      example_defs string_defs scanned_text_def)

lemma scanned_paragraphs:
  "split_into_paragraphs scanned_text
     = [''--- Page 1 ---'', ''A'', ''--- Page 2 ---'', ''B1'', ''B2'', ''B3'', ''B4'', ''B5'']"
  by (simp add: scanned_text_def segmentation_defs string_defs)

lemma scanned_markers:
  "search_marker ''A'' = None" "search_marker ''B1'' = None"
  "search_marker ''B2'' = None" "search_marker ''B3'' = None"
  "search_marker ''B4'' = None" "search_marker ''B5'' = None"
  "search_marker ''--- Page 1 ---'' = Some ''1''"
  "search_marker ''--- Page 2 ---'' = Some ''2''"
  by (simp_all add: match_marker_def startswith_def is_digit_def)

lemma scanned_nonblank:
  "strip ''A'' \<noteq> []" "strip ''B1'' \<noteq> []" "strip ''B2'' \<noteq> []" "strip ''B3'' \<noteq> []"
  "strip ''B4'' \<noteq> []" "strip ''B5'' \<noteq> []" "strip ''--- Page 1 ---'' \<noteq> []"
  "strip ''--- Page 2 ---'' \<noteq> []"
  by (simp_all add: strip_def lstrip_def rstrip_def is_space_def)

lemma scanned_page_count: "get_default (page_count scanned_document) 1 = Value 2"
  by (simp add: scanned_processed get_default_def)

lemma scanned_paragraph_pages:
  "paragraph_page scanned_document i n ''--- Page 1 ---'' = Some 1"
  "paragraph_page scanned_document i n ''--- Page 2 ---'' = Some 2"
  "paragraph_page scanned_document i n ''A'' = Some (estimate_page_number (int i) (int n) 2)"
  "paragraph_page scanned_document i n ''B1'' = Some (estimate_page_number (int i) (int n) 2)"
  "paragraph_page scanned_document i n ''B2'' = Some (estimate_page_number (int i) (int n) 2)"
  "paragraph_page scanned_document i n ''B3'' = Some (estimate_page_number (int i) (int n) 2)"
  "paragraph_page scanned_document i n ''B4'' = Some (estimate_page_number (int i) (int n) 2)"
  "paragraph_page scanned_document i n ''B5'' = Some (estimate_page_number (int i) (int n) 2)"
  by (simp_all add: paragraph_page_def extract_page_number_def scanned_markers
      scanned_page_count digits_value_def digit_val_def is_digit_def
      del: search_marker.simps)

lemma paragraph_entry_page:
  assumes "paragraph_page document i n par = Some page"
  shows "\<exists>p. paragraph_entry document n (i, par) = Some (i, p)
           \<and> p_text p = par \<and> p_page p = page"
  using assms by (simp add: paragraph_entry_def Let_def)

lemma scanned_entries:
  "\<exists>entries.
     paragraph_entries scanned_document
       [''--- Page 1 ---'', ''A'', ''--- Page 2 ---'', ''B1'', ''B2'', ''B3'', ''B4'', ''B5'']
       = Some entries
   \<and> map (\<lambda>(i, p). (i, p_text p, p_page p)) entries
       = [(0, ''--- Page 1 ---'', 1), (1, ''A'', 1), (2, ''--- Page 2 ---'', 2),
          (3, ''B1'', 1), (4, ''B2'', 2), (5, ''B3'', 2), (6, ''B4'', 2), (7, ''B5'', 2)]"
proof -
  let ?g = "paragraph_entry scanned_document 8"
  have e: "estimate_page_number 1 8 2 = 1" "estimate_page_number 3 8 2 = 1"
    "estimate_page_number 4 8 2 = 2" "estimate_page_number 5 8 2 = 2"
    "estimate_page_number 6 8 2 = 2" "estimate_page_number 7 8 2 = 2"
    by (simp_all add: estimate_page_number_def)
  obtain p0 where p0: "?g (0, ''--- Page 1 ---'') = Some (0, p0)"
    "p_text p0 = ''--- Page 1 ---''" "p_page p0 = 1"
    using paragraph_entry_page [OF scanned_paragraph_pages(1) [of 0 8]] by blast
  obtain p1 where p1: "?g (Suc 0, ''A'') = Some (Suc 0, p1)" "p_text p1 = ''A''" "p_page p1 = 1"
    using paragraph_entry_page [OF scanned_paragraph_pages(3) [of "Suc 0" 8]]
    by (auto simp add: e)
  obtain p2 where p2: "?g (2, ''--- Page 2 ---'') = Some (2, p2)"
    "p_text p2 = ''--- Page 2 ---''" "p_page p2 = 2"
    using paragraph_entry_page [OF scanned_paragraph_pages(2) [of 2 8]] by blast
  obtain p3 where p3: "?g (3, ''B1'') = Some (3, p3)" "p_text p3 = ''B1''" "p_page p3 = 1"
    using paragraph_entry_page [OF scanned_paragraph_pages(4) [of 3 8]] by (auto simp add: e)
  obtain p4 where p4: "?g (4, ''B2'') = Some (4, p4)" "p_text p4 = ''B2''" "p_page p4 = 2"
    using paragraph_entry_page [OF scanned_paragraph_pages(5) [of 4 8]] by (auto simp add: e)
  obtain p5 where p5: "?g (5, ''B3'') = Some (5, p5)" "p_text p5 = ''B3''" "p_page p5 = 2"
    using paragraph_entry_page [OF scanned_paragraph_pages(6) [of 5 8]] by (auto simp add: e)
  obtain p6 where p6: "?g (6, ''B4'') = Some (6, p6)" "p_text p6 = ''B4''" "p_page p6 = 2"
    using paragraph_entry_page [OF scanned_paragraph_pages(7) [of 6 8]] by (auto simp add: e)
  obtain p7 where p7: "?g (7, ''B5'') = Some (7, p7)" "p_text p7 = ''B5''" "p_page p7 = 2"
    using paragraph_entry_page [OF scanned_paragraph_pages(8) [of 7 8]] by (auto simp add: e)
  have en: "enumerate 0
              [''--- Page 1 ---'', ''A'', ''--- Page 2 ---'', ''B1'', ''B2'', ''B3'', ''B4'', ''B5'']
            = [(0, ''--- Page 1 ---''), (Suc 0, ''A''), (2, ''--- Page 2 ---''), (3, ''B1''),
               (4, ''B2''), (5, ''B3''), (6, ''B4''), (7, ''B5'')]"
    by (simp add: eval_nat_numeral)
  have len: "length
               [''--- Page 1 ---'', ''A'', ''--- Page 2 ---'', ''B1'', ''B2'', ''B3'', ''B4'', ''B5'']
             = 8"
    by simp
  have "paragraph_entries scanned_document
          [''--- Page 1 ---'', ''A'', ''--- Page 2 ---'', ''B1'', ''B2'', ''B3'', ''B4'', ''B5'']
        = Some [(0, p0), (Suc 0, p1), (2, p2), (3, p3), (4, p4), (5, p5), (6, p6), (7, p7)]"
    unfolding paragraph_entries_def en len Let_def
    by (simp add: scanned_nonblank p0(1) p1(1) p2(1) p3(1) p4(1) p5(1) p6(1) p7(1))
  then show ?thesis
    by (simp add: p0 p1 p2 p3 p4 p5 p6 p7)
qed

lemma scanned_stored:
  assumes "paragraph_entries scanned_document
             [''--- Page 1 ---'', ''A'', ''--- Page 2 ---'', ''B1'', ''B2'', ''B3'', ''B4'', ''B5'']
           = Some entries"
  shows "citation_process_document scanned_filesystem [] scanned_document
           = (True,
              [(''d9'',
                \<lparr>cd_document_id = ''d9'', cd_document_title = Value ''Report'',
                 cd_paragraph_count = 8, cd_paragraphs = entries\<rparr>)])"
proof -
  have d: "doc_id scanned_document = ''d9''" "status scanned_document = Value ''processed''"
    "processed_path scanned_document = Value ''/data/processed/d9''"
    "title scanned_document = Value ''Report''"
    by (simp_all add: scanned_processed uploaded_document_def)
  show ?thesis
    unfolding citation_process_document_def d Let_def
    by (simp add: scanned_file os_path_exists_def domIff scanned_paragraphs assms
        get_default_def)
qed

lemma scanned_run:
  "citation_process_document scanned_filesystem [] scanned_document
     = (True, scanned_citation_index)"
proof -
  from scanned_entries obtain entries where
    "paragraph_entries scanned_document
       [''--- Page 1 ---'', ''A'', ''--- Page 2 ---'', ''B1'', ''B2'', ''B3'', ''B4'', ''B5'']
     = Some entries"
    by (elim exE conjE)
  from scanned_stored [OF this] show ?thesis
    by (simp add: scanned_citation_index_def)
qed

lemma scanned_pages:
  "map_option (\<lambda>cd. map (\<lambda>(i, p). (i, p_text p, p_page p)) (cd_paragraphs cd))
     (map_of scanned_citation_index ''d9'')
   = Some [(0, ''--- Page 1 ---'', 1), (1, ''A'', 1), (2, ''--- Page 2 ---'', 2),
           (3, ''B1'', 1), (4, ''B2'', 2), (5, ''B3'', 2), (6, ''B4'', 2), (7, ''B5'', 2)]"
proof -
  from scanned_entries obtain entries where
    e: "paragraph_entries scanned_document
          [''--- Page 1 ---'', ''A'', ''--- Page 2 ---'', ''B1'', ''B2'', ''B3'', ''B4'', ''B5'']
        = Some entries"
    and v: "map (\<lambda>(i, p). (i, p_text p, p_page p)) entries
       = [(0, ''--- Page 1 ---'', 1), (1, ''A'', 1), (2, ''--- Page 2 ---'', 2),
          (3, ''B1'', 1), (4, ''B2'', 2), (5, ''B3'', 2), (6, ''B4'', 2), (7, ''B5'', 2)]"
    by (elim exE conjE)
  show ?thesis
    unfolding scanned_citation_index_def scanned_stored [OF e]
    by (simp add: v)
qed

theorem paragraph_pages_estimated_witness:
  "citation_process_document scanned_filesystem [] scanned_document
     = (True, scanned_citation_index)
   \<and> get_default (page_count scanned_document) 1 = Value 2
   \<and> map_of scanned_citation_index (doc_id scanned_document) \<noteq> None
   \<and> map_option (\<lambda>cd. map (\<lambda>(i, p). (i, p_text p, p_page p)) (cd_paragraphs cd))
       (map_of scanned_citation_index ''d9'')
     = Some [(0, ''--- Page 1 ---'', 1), (1, ''A'', 1), (2, ''--- Page 2 ---'', 2),
             (3, ''B1'', 1), (4, ''B2'', 2), (5, ''B3'', 2), (6, ''B4'', 2), (7, ''B5'', 2)]
   \<and> map (\<lambda>i. estimate_page_number i 8 2) [1, 3, 4, 5, 6, 7] = [1, 1, 2, 2, 2, 2]"
proof -
  have pos: "(1::int) \<le> 2" by simp
  from paragraph_pages_estimated [OF scanned_run scanned_page_count pos]
  obtain cd where "map_of scanned_citation_index (doc_id scanned_document) = Some cd"
    by (elim exE conjE)
  then have n: "map_of scanned_citation_index (doc_id scanned_document) \<noteq> None" by simp
  have e: "map (\<lambda>i. estimate_page_number i 8 2) [1, 3, 4, 5, 6, 7] = [1, 1, 2, 2, 2, 2]"
    by (simp add: estimate_page_number_def)
  show ?thesis
    by (intro conjI scanned_run scanned_page_count n scanned_pages e)
qed

text \<open>The pages of the eight paragraphs of the scanned PDF are
  1, 1, 2, 1, 2, 2, 2, 2: the third paragraph is the marker of page 2, and
  the fourth, the first paragraph of page 2, has no marker and is estimated
  on page 1.\<close>

theorem scanned_pages_decrease:
  "status scanned_document = Value ''processed''
   \<and> page_count scanned_document = Value 2
   \<and> fst (citation_process_document scanned_filesystem [] scanned_document)
   \<and> map_option (\<lambda>cd. map (\<lambda>(i, p). p_page p) (cd_paragraphs cd))
       (map_of scanned_citation_index ''d9'')
     = Some [1, 1, 2, 1, 2, 2, 2, 2]
   \<and> map_option (\<lambda>cd. map (\<lambda>(i, p). search_marker (p_text p) = None) (cd_paragraphs cd))
       (map_of scanned_citation_index ''d9'')
     = Some [False, True, False, True, True, True, True, True]"
proof -
  from scanned_pages obtain cd where
    cd: "map_of scanned_citation_index ''d9'' = Some cd" and
    ps: "map (\<lambda>(i, p). (i, p_text p, p_page p)) (cd_paragraphs cd)
           = [(0, ''--- Page 1 ---'', 1), (1, ''A'', 1), (2, ''--- Page 2 ---'', 2),
              (3, ''B1'', 1), (4, ''B2'', 2), (5, ''B3'', 2), (6, ''B4'', 2), (7, ''B5'', 2)]"
    by (cases "map_of scanned_citation_index ''d9''") simp_all
  have "map (\<lambda>(i, p). p_page p) (cd_paragraphs cd)
          = map (\<lambda>t. snd (snd t)) (map (\<lambda>(i, p). (i, p_text p, p_page p)) (cd_paragraphs cd))"
    by (simp add: split_beta)
  then have a: "map (\<lambda>(i, p). p_page p) (cd_paragraphs cd) = [1, 1, 2, 1, 2, 2, 2, 2]"
    unfolding ps by simp
  have "map (\<lambda>(i, p). search_marker (p_text p) = None) (cd_paragraphs cd)
          = map (\<lambda>t. search_marker (fst (snd t)) = None)
              (map (\<lambda>(i, p). (i, p_text p, p_page p)) (cd_paragraphs cd))"
    by (simp add: split_beta)
  then have b: "map (\<lambda>(i, p). search_marker (p_text p) = None) (cd_paragraphs cd)
      = [False, True, False, True, True, True, True, True]"
    unfolding ps by (simp add: scanned_markers del: search_marker.simps)
  from a b cd scanned_run show ?thesis
    by (simp add: scanned_processed)
qed

end
